theory Spec2Isabelle
  imports Main
begin

unbundle bit_operations_syntax

section \<open>The literals embedded in the script\<close>

text \<open>
  The script \<^verbatim>\<open>setup_application_consistent_backup_opensource.py\<close> carries three
  triple-quoted string literals. Each one starts right after the opening quotes and ends
  with a line feed before the closing quotes, so it is the sequence of its source lines,
  each followed by a line feed. The literals hold printable ASCII only.
\<close>

definition unlines :: "string list \<Rightarrow> string" where
  "unlines ls = concat (map (\<lambda>l. l @ [CHR 0x0A]) ls)"

definition PRE_BACKUP_CONTENT :: string where
  \<open>PRE_BACKUP_CONTENT = unlines
    [''#!/bin/bash'',
     '''',
     ''# Define logging function'',
     ''log_message() {'',
     ''    echo "[$(date '+%Y-%m-%d %H:%M:%S')] $1" | sudo tee -a /var/log/azure-backup.log > /dev/null'',
     ''}'',
     '''',
     ''# Pause the application before backup'',
     ''log_message "Pre-backup script started - pausing application"'',
     '''',
     ''# Example: Stop your application service'',
     ''# Replace 'your-app-service' with your actual service name'',
     ''SERVICE_NAME="your-app-service"'',
     '''',
     ''# Check if the service is running before attempting to stop it'',
     ''if systemctl is-active --quiet $SERVICE_NAME; then'',
     ''    sudo systemctl stop $SERVICE_NAME'',
     ''    if [ $? -eq 0 ]; then'',
     ''        log_message "Successfully stopped $SERVICE_NAME"'',
     ''    else'',
     ''        log_message "WARNING: Failed to stop $SERVICE_NAME"'',
     ''        # Continue anyway, as we don't want to fail the backup'',
     ''    fi'',
     ''else'',
     ''    log_message "$SERVICE_NAME was not running, nothing to stop"'',
     ''fi'',
     '''',
     ''# Additional application-specific commands can be added here'',
     ''# Examples:'',
     ''# - Stop database connections'',
     ''# - Flush application caches'',
     ''# - Quiesce file systems'',
     '''',
     ''# Flush any filesystem buffers'',
     ''sync'',
     '''',
     ''log_message "Pre-backup script completed"'',
     ''exit 0'']\<close>

definition POST_BACKUP_CONTENT :: string where
  \<open>POST_BACKUP_CONTENT = unlines
    [''#!/bin/bash'',
     '''',
     ''# Define logging function'',
     ''log_message() {'',
     ''    echo "[$(date '+%Y-%m-%d %H:%M:%S')] $1" | sudo tee -a /var/log/azure-backup.log > /dev/null'',
     ''}'',
     '''',
     ''# Resume the application after backup'',
     ''log_message "Post-backup script started - resuming application"'',
     '''',
     ''# Example: Start your application service'',
     ''# Replace 'your-app-service' with your actual service name'',
     ''SERVICE_NAME="your-app-service"'',
     '''',
     ''# Start the service'',
     ''sudo systemctl start $SERVICE_NAME'',
     ''if [ $? -eq 0 ]; then'',
     ''    log_message "Successfully started $SERVICE_NAME"'',
     ''else'',
     ''    log_message "ERROR: Failed to start $SERVICE_NAME"'',
     ''    # We don't exit with error as we don't want to mark the backup as failed'',
     ''    # but this should be investigated'',
     ''fi'',
     '''',
     ''# Additional application-specific commands can be added here'',
     ''# Examples:'',
     ''# - Restart database connections'',
     ''# - Reload application configurations'',
     ''# - Verify application health'',
     '''',
     ''log_message "Post-backup script completed"'',
     ''exit 0'']\<close>

definition CONFIG_CONTENT :: string where
  \<open>CONFIG_CONTENT = unlines
    [''{'',
     ''  "pluginName": "ScriptRunner",'',
     ''  "preScriptLocation": "/etc/azure/pre_backup.sh",'',
     ''  "postScriptLocation": "/etc/azure/post_backup.sh",'',
     ''  "preScriptParams": ["", ""],'',
     ''  "postScriptParams": ["", ""],'',
     ''  "preScriptNoOfRetries": 0,'',
     ''  "postScriptNoOfRetries": 0,'',
     ''  "timeoutInSeconds": 30,'',
     ''  "continueBackupOnFailure": true,'',
     ''  "fsFreezeEnabled": true'',
     ''}'']\<close>

section \<open>The operating system the script talks to\<close>

text \<open>
  The script acts only through the Python standard library: \<^verbatim>\<open>os.geteuid\<close>,
  \<^verbatim>\<open>os.path.join\<close>, \<^verbatim>\<open>os.makedirs\<close>, \<^verbatim>\<open>open\<close>/\<^verbatim>\<open>write\<close>,
  \<^verbatim>\<open>os.chmod\<close>, \<^verbatim>\<open>print\<close> and \<^verbatim>\<open>sys.exit\<close>. The file system is a map from
  absolute, normalised POSIX paths to nodes; a file node carries its text and its
  permission bits. Every path names its own node: symbolic links, hard links, ownership
  and directory permission bits are not modelled, so nothing here speaks of a file system
  where one of the paths of the script is a link. Every call that can raise
  \<^verbatim>\<open>OSError\<close> returns the exception as a value.
\<close>

type_synonym path = string

datatype node = Dir | File string int

datatype errno =
  EPERM | ENOENT | EIO | EBADF | EACCES | EEXIST | ENOTDIR | EISDIR | ENOSPC | EROFS

text \<open>An \<^verbatim>\<open>OSError\<close> instance: its error number and, when the call had one, the file name.\<close>

datatype exn = OSError errno "path option"

text \<open>
  The calls the process makes: the four on the file system, with their arguments, and
  the write of the buffered output to standard output when the interpreter exits.
\<close>

datatype syscall =
  Mkdir path | Open path | Write path string | Chmod path int | Flush

text \<open>
  The state of the operating system: the file system, and the log of the system calls
  issued so far, each with its outcome. The log is what an observer tracing the process
  would see; the script never reads it.
\<close>

record os_state =
  fs :: "path \<rightharpoonup> node"
  calls :: "(syscall \<times> exn option) list"

text \<open>
  What the script cannot control. \<open>os_geteuid\<close> is \<open>None\<close> on a platform whose
  \<^verbatim>\<open>os\<close> module has no attribute \<^verbatim>\<open>geteuid\<close>. \<open>fault\<close> says which system calls
  the environment makes fail although the shape of the file system would allow them
  (permission denied, read-only file system, no space left, an I/O error);
  \<open>short_write\<close> is how many characters of the text reach the file when a write fails.
\<close>

record env =
  os_geteuid :: "nat option"
  umask :: int
  fault :: "syscall \<Rightarrow> errno option"
  short_write :: nat

subsection \<open>Paths\<close>

text \<open>
  \<^verbatim>\<open>posixpath.split\<close>: the tail is everything after the last slash; the head is
  everything up to it, with trailing slashes stripped unless it consists of slashes only.
\<close>

definition posix_split :: "path \<Rightarrow> path \<times> path" where
  "posix_split p =
     (let head = rev (dropWhile (\<lambda>c. c \<noteq> CHR ''/'') (rev p));
          tail = rev (takeWhile (\<lambda>c. c \<noteq> CHR ''/'') (rev p))
      in (if head \<noteq> [] \<and> \<not> list_all (\<lambda>c. c = CHR ''/'') head
          then rev (dropWhile (\<lambda>c. c = CHR ''/'') (rev head)) else head,
          tail))"

text \<open>\<^verbatim>\<open>posixpath.join\<close> of two components.\<close>

definition os_path_join :: "path \<Rightarrow> path \<Rightarrow> path" where
  "os_path_join a b =
     (if b \<noteq> [] \<and> hd b = CHR ''/'' then b
      else if a = [] \<or> last a = CHR ''/'' then a @ b
      else a @ ''/'' @ b)"

definition dirname :: "path \<Rightarrow> path" where
  "dirname p = fst (posix_split p)"

text \<open>\<^verbatim>\<open>os.path.exists\<close> and \<^verbatim>\<open>os.path.isdir\<close>; they read the file system only.\<close>

definition path_exists :: "os_state \<Rightarrow> path \<Rightarrow> bool" where
  "path_exists s p = (fs s p \<noteq> None)"

definition path_isdir :: "os_state \<Rightarrow> path \<Rightarrow> bool" where
  "path_isdir s p = (fs s p = Some Dir)"

subsection \<open>System calls\<close>

text \<open>
  Each call appends itself and its outcome to the log. A fault of the environment comes
  before the checks on the shape of the file system. A call that fails leaves the file
  system as it was, except a failing write, which leaves a prefix of the text.
\<close>

definition parent_error :: "os_state \<Rightarrow> path \<Rightarrow> errno option" where
  "parent_error s p =
     (case fs s (dirname p) of
        None \<Rightarrow> Some ENOENT
      | Some (File _ _) \<Rightarrow> Some ENOTDIR
      | Some Dir \<Rightarrow> None)"

definition raise_of :: "errno option \<Rightarrow> path option \<Rightarrow> exn option" where
  "raise_of r p = (case r of None \<Rightarrow> None | Some en \<Rightarrow> Some (OSError en p))"

definition logged :: "syscall \<Rightarrow> exn option \<Rightarrow> (path \<rightharpoonup> node) \<Rightarrow> os_state \<Rightarrow> exn option \<times> os_state" where
  "logged c r f s = (r, \<lparr>fs = f, calls = calls s @ [(c, r)]\<rparr>)"

text \<open>
  \<^verbatim>\<open>os.mkdir(p)\<close>, mode \<^verbatim>\<open>0o777\<close> (directory permission bits are not modelled), for a
  name that does not end with a slash.
\<close>

definition os_mkdir :: "env \<Rightarrow> path \<Rightarrow> os_state \<Rightarrow> exn option \<times> os_state" where
  "os_mkdir e p s =
     (let r = (case fault e (Mkdir p) of
                 Some en \<Rightarrow> Some en
               | None \<Rightarrow>
                   (case parent_error s p of
                      Some en \<Rightarrow> Some en
                    | None \<Rightarrow> if fs s p \<noteq> None then Some EEXIST else None))
      in logged (Mkdir p) (raise_of r (Some p))
           (if r = None then (fs s)(p \<mapsto> Dir) else fs s) s)"

text \<open>
  \<^verbatim>\<open>open(p, 'w')\<close>: an existing file is truncated and keeps its permission bits; a
  missing one is created empty with bits \<^verbatim>\<open>0o666 & ~umask\<close> (438 is \<^verbatim>\<open>0o666\<close>).
\<close>

definition os_open_w :: "env \<Rightarrow> path \<Rightarrow> os_state \<Rightarrow> exn option \<times> os_state" where
  "os_open_w e p s =
     (let r = (case fault e (Open p) of
                 Some en \<Rightarrow> Some en
               | None \<Rightarrow>
                   (case fs s p of
                      Some Dir \<Rightarrow> Some EISDIR
                    | Some (File _ _) \<Rightarrow> None
                    | None \<Rightarrow> parent_error s p))
      in logged (Open p) (raise_of r (Some p))
           (if r = None
            then (case fs s p of
                    Some (File _ m) \<Rightarrow> (fs s)(p \<mapsto> File [] m)
                  | _ \<Rightarrow> (fs s)(p \<mapsto> File [] (438 AND NOT (umask e))))
            else fs s) s)"

text \<open>
  \<^verbatim>\<open>f.write(c)\<close> followed by the close at the end of the \<^verbatim>\<open>with\<close> block, on the
  file opened at \<open>p\<close>. The text is what Python hands to the file object.
\<close>

definition os_write :: "env \<Rightarrow> path \<Rightarrow> string \<Rightarrow> os_state \<Rightarrow> exn option \<times> os_state" where
  "os_write e p c s =
     (case fs s p of
        Some (File _ m) \<Rightarrow>
          (case fault e (Write p c) of
             Some en \<Rightarrow>
               logged (Write p c) (Some (OSError en None))
                 ((fs s)(p \<mapsto> File (take (short_write e) c) m)) s
           | None \<Rightarrow> logged (Write p c) None ((fs s)(p \<mapsto> File c m)) s)
      | _ \<Rightarrow> logged (Write p c) (Some (OSError EBADF None)) (fs s) s)"

text \<open>
  \<^verbatim>\<open>os.chmod(p, mode)\<close>, for a mode that fits a C \<^verbatim>\<open>int\<close>: sets the permission bits
  (4095 is \<^verbatim>\<open>0o7777\<close>).
\<close>

definition os_chmod :: "env \<Rightarrow> path \<Rightarrow> int \<Rightarrow> os_state \<Rightarrow> exn option \<times> os_state" where
  "os_chmod e p mode s =
     (let r = (case fault e (Chmod p mode) of
                 Some en \<Rightarrow> Some en
               | None \<Rightarrow> if fs s p = None then Some ENOENT else None)
      in logged (Chmod p mode) (raise_of r (Some p))
           (if r = None
            then (case fs s p of
                    Some (File c _) \<Rightarrow> (fs s)(p \<mapsto> File c (mode AND 4095))
                  | _ \<Rightarrow> fs s)
            else fs s) s)"

text \<open>
  The flush of standard output when the interpreter exits. It fails when the output
  cannot be written (a closed pipe, a full device); it does not touch the file system.
\<close>

definition os_flush_stdout :: "env \<Rightarrow> os_state \<Rightarrow> exn option \<times> os_state" where
  "os_flush_stdout e s = logged Flush (raise_of (fault e Flush) None) (fs s) s"

subsection \<open>\<^verbatim>\<open>os.makedirs(name, exist_ok=True)\<close>\<close>

text \<open>
  The library function, as CPython writes it: split the name (twice when it ends with a
  slash); when the head is missing, make it first, ignoring a \<^verbatim>\<open>FileExistsError\<close>;
  then \<^verbatim>\<open>mkdir\<close> the name, ignoring any \<^verbatim>\<open>OSError\<close> when the name is a directory
  afterwards.
\<close>

definition makedirs_split :: "path \<Rightarrow> path \<times> path" where
  "makedirs_split name =
     (let (head, tail) = posix_split name
      in if tail = [] then posix_split head else (head, tail))"

definition is_FileExistsError :: "exn \<Rightarrow> bool" where
  "is_FileExistsError ex = (case ex of OSError en _ \<Rightarrow> en = EEXIST)"

definition mkdir_exist_ok :: "env \<Rightarrow> path \<Rightarrow> os_state \<Rightarrow> exn option \<times> os_state" where
  "mkdir_exist_ok e name s =
     (case os_mkdir e name s of
        (None, s') \<Rightarrow> (None, s')
      | (Some ex, s') \<Rightarrow> if path_isdir s' name then (None, s') else (Some ex, s'))"

function os_makedirs :: "env \<Rightarrow> path \<Rightarrow> os_state \<Rightarrow> exn option \<times> os_state" where
  "os_makedirs e name s =
     (case makedirs_split name of
        (head, tail) \<Rightarrow>
          if head \<noteq> [] \<and> tail \<noteq> [] \<and> \<not> path_exists s head
          then (case os_makedirs e head s of
                  (None, s1) \<Rightarrow>
                    if tail = ''.'' then (None, s1) else mkdir_exist_ok e name s1
                | (Some ex, s1) \<Rightarrow>
                    if is_FileExistsError ex
                    then (if tail = ''.'' then (None, s1) else mkdir_exist_ok e name s1)
                    else (Some ex, s1))
          else mkdir_exist_ok e name s)"
  by pat_completeness auto
termination
proof (relation "measure (\<lambda>(e, name, s). length name)")
  show "wf (measure (\<lambda>(e, name, s). length name))"
    by simp
next
  fix e :: env and name :: path and s :: os_state and head tail :: path
  assume split: "(head, tail) = makedirs_split name"
    and cond: "head \<noteq> [] \<and> tail \<noteq> [] \<and> \<not> path_exists s head"
  have len: "length (fst (posix_split p)) + length (snd (posix_split p)) \<le> length p" for p
  proof -
    have a: "length (dropWhile (\<lambda>c. c \<noteq> CHR ''/'') (rev p))
               + length (takeWhile (\<lambda>c. c \<noteq> CHR ''/'') (rev p)) = length p"
      by (metis add.commute length_append length_rev takeWhile_dropWhile_id)
    have b: "length (dropWhile (\<lambda>c. c = CHR ''/'') (rev (rev (dropWhile (\<lambda>c. c \<noteq> CHR ''/'') (rev p)))))
               \<le> length (dropWhile (\<lambda>c. c \<noteq> CHR ''/'') (rev p))"
      by (metis length_dropWhile_le length_rev)
    show ?thesis
      using a b by (simp add: posix_split_def Let_def)
  qed
  obtain h0 t0 where s0: "posix_split name = (h0, t0)"
    by (cases "posix_split name")
  have l0: "length h0 + length t0 \<le> length name"
    using len [of name] s0 by simp
  have "length head < length name"
  proof (cases "t0 = []")
    case True
    then have "posix_split h0 = (head, tail)"
      using split s0 by (simp add: makedirs_split_def)
    then have "length head + length tail \<le> length h0"
      using len [of h0] by simp
    then show ?thesis
      using l0 cond by (cases tail) auto
  next
    case False
    then have "h0 = head" and "t0 = tail"
      using split s0 by (simp_all add: makedirs_split_def)
    then show ?thesis
      using l0 cond by (cases tail) auto
  qed
  then show "((e, head, s), (e, name, s)) \<in> measure (\<lambda>(e, name, s). length name)"
    by simp
qed

declare os_makedirs.simps [simp del]

section \<open>The script\<close>

text \<open>
  The process as the script sees it: the operating system, and the lines it has printed.
  Standard output is block-buffered, as it is when it is not a terminal, and the whole
  output of a run (under two kilobytes) fits the buffer: the lines stay in the buffer
  until the interpreter exits.
\<close>

record world =
  sys :: os_state
  out :: "string list"

text \<open>
  \<^verbatim>\<open>print(line)\<close> puts the line in the buffer; it writes nothing, so it does not fail. The
  write happens at exit (\<open>run_script\<close> below).
\<close>

definition print :: "string \<Rightarrow> world \<Rightarrow> world" where
  "print line w = w\<lparr>out := out w @ [line]\<rparr>"

definition prints :: "string list \<Rightarrow> world \<Rightarrow> world" where
  "prints ls w = foldl (\<lambda>w' l. print l w') w ls"

subsection \<open>Rendering values in the messages\<close>

definition digit :: "nat \<Rightarrow> char" where
  "digit d = ''0123456789'' ! d"

fun digits :: "nat \<Rightarrow> nat \<Rightarrow> string" where
  "digits b n = (if b < 2 \<or> n < b then [digit n] else digits b (n div b) @ [digit (n mod b)])"

text \<open>\<^verbatim>\<open>oct(n)\<close> of a Python integer.\<close>

definition oct :: "int \<Rightarrow> string" where
  "oct n = (if n < 0 then ''-0o'' @ digits 8 (nat (- n)) else ''0o'' @ digits 8 (nat n))"

text \<open>The error numbers and messages of Linux.\<close>

fun errno_code :: "errno \<Rightarrow> nat" where
  "errno_code EPERM = 1"
| "errno_code ENOENT = 2"
| "errno_code EIO = 5"
| "errno_code EBADF = 9"
| "errno_code EACCES = 13"
| "errno_code EEXIST = 17"
| "errno_code ENOTDIR = 20"
| "errno_code EISDIR = 21"
| "errno_code ENOSPC = 28"
| "errno_code EROFS = 30"

fun strerror :: "errno \<Rightarrow> string" where
  "strerror EPERM = ''Operation not permitted''"
| "strerror ENOENT = ''No such file or directory''"
| "strerror EIO = ''Input/output error''"
| "strerror EBADF = ''Bad file descriptor''"
| "strerror EACCES = ''Permission denied''"
| "strerror EEXIST = ''File exists''"
| "strerror ENOTDIR = ''Not a directory''"
| "strerror EISDIR = ''Is a directory''"
| "strerror ENOSPC = ''No space left on device''"
| "strerror EROFS = ''Read-only file system''"

text \<open>
  \<^verbatim>\<open>str(e)\<close> of an \<^verbatim>\<open>OSError\<close>, as the f-strings format it. The file name is shown
  by \<^verbatim>\<open>repr\<close>, which for a path without quotes, backslashes or unprintable characters
  puts it between single quotes.
\<close>

definition str_exn :: "exn \<Rightarrow> string" where
  "str_exn ex =
     (case ex of
        OSError en None \<Rightarrow> ''[Errno '' @ digits 10 (errno_code en) @ ''] '' @ strerror en
      | OSError en (Some p) \<Rightarrow>
          ''[Errno '' @ digits 10 (errno_code en) @ ''] '' @ strerror en @ '': '' @ [CHR 0x27] @ p @ [CHR 0x27])"

subsection \<open>The constants of \<^verbatim>\<open>stat\<close>\<close>

definition S_IRUSR :: int where "S_IRUSR = 256"  \<comment> \<open>\<^verbatim>\<open>0o400\<close>\<close>
definition S_IWUSR :: int where "S_IWUSR = 128"  \<comment> \<open>\<^verbatim>\<open>0o200\<close>\<close>
definition S_IRWXU :: int where "S_IRWXU = 448"  \<comment> \<open>\<^verbatim>\<open>0o700\<close>\<close>

subsection \<open>The functions of the script\<close>

definition create_directory_if_not_exists :: "env \<Rightarrow> path \<Rightarrow> world \<Rightarrow> bool \<times> world" where
  "create_directory_if_not_exists e directory w =
     (case os_makedirs e directory (sys w) of
        (None, s') \<Rightarrow>
          (True, print (''Directory '' @ directory @ '' created or already exists.'')
                   (w\<lparr>sys := s'\<rparr>))
      | (Some ex, s') \<Rightarrow>
          (False, print (''Error creating directory '' @ directory @ '': '' @ str_exn ex)
                    (w\<lparr>sys := s'\<rparr>)))"

text \<open>The \<^verbatim>\<open>except\<close> branch of \<^verbatim>\<open>create_file_with_content_and_permissions\<close>.\<close>

definition file_error :: "path \<Rightarrow> exn \<Rightarrow> world \<Rightarrow> bool \<times> world" where
  "file_error file_path ex w =
     (False, print (''Error creating '' @ file_path @ '': '' @ str_exn ex) w)"

definition create_file_with_content_and_permissions ::
    "env \<Rightarrow> path \<Rightarrow> string \<Rightarrow> int \<Rightarrow> world \<Rightarrow> bool \<times> world" where
  "create_file_with_content_and_permissions e file_path content permissions w =
     (case os_open_w e file_path (sys w) of
        (Some ex, s1) \<Rightarrow> file_error file_path ex (w\<lparr>sys := s1\<rparr>)
      | (None, s1) \<Rightarrow>
          (case os_write e file_path content s1 of
             (Some ex, s2) \<Rightarrow> file_error file_path ex (w\<lparr>sys := s2\<rparr>)
           | (None, s2) \<Rightarrow>
               let w2 = print (''Created '' @ file_path) (w\<lparr>sys := s2\<rparr>)
               in (case os_chmod e file_path permissions (sys w2) of
                     (Some ex, s3) \<Rightarrow> file_error file_path ex (w2\<lparr>sys := s3\<rparr>)
                   | (None, s3) \<Rightarrow>
                       (True, print (''Set permissions '' @ oct permissions @ '' on '' @ file_path)
                                (w2\<lparr>sys := s3\<rparr>)))))"

text \<open>
  \<^verbatim>\<open>main\<close>, with the status it hands to the interpreter: 1 where the script calls
  \<^verbatim>\<open>sys.exit(1)\<close>, 0 where \<^verbatim>\<open>main\<close> returns. The exit status of the process is
  that of \<open>run_script\<close> below.
\<close>

definition main :: "env \<Rightarrow> world \<Rightarrow> int \<times> world" where
  "main e w =
     (if (case os_geteuid e of None \<Rightarrow> False | Some uid \<Rightarrow> uid \<noteq> 0)
      then (1, prints
                 [''This script must be run as root (sudo).'',
                  ''Usage: sudo python3 setup_application_consistent_backup.py''] w)
      else
        let azure_dir = ''/etc/azure'';
            pre_backup_dest = os_path_join azure_dir ''pre_backup.sh'';
            post_backup_dest = os_path_join azure_dir ''post_backup.sh'';
            config_dest = os_path_join azure_dir ''VMSnapshotScriptPluginConfig.json'';
            w0 = prints
                   [''Starting Azure VM application-consistent backup setup...'',
                    '''',
                    ''IMPORTANT: Before using this script, please:'',
                    ''1. Replace 'your-app-service' in the scripts with your actual service name'',
                    ''2. Add any additional application-specific commands as needed'',
                    ''3. Test the scripts manually before relying on them for backups'',
                    ''''] w;
            (ok, w1) = create_directory_if_not_exists e azure_dir w0
        in if \<not> ok then (1, w1)
           else
             let success = True;
                 (r1, w2) = create_file_with_content_and_permissions e
                              config_dest CONFIG_CONTENT (S_IRUSR OR S_IWUSR) w1;
                 success = (if \<not> r1 then False else success);
                 (r2, w3) = create_file_with_content_and_permissions e
                              pre_backup_dest PRE_BACKUP_CONTENT S_IRWXU w2;
                 success = (if \<not> r2 then False else success);
                 (r3, w4) = create_file_with_content_and_permissions e
                              post_backup_dest POST_BACKUP_CONTENT S_IRWXU w3;
                 success = (if \<not> r3 then False else success)
             in if success
                then (0, prints
                           [''\<newline>Setup completed successfully!'',
                            ''Files created in /etc/azure:'',
                            ''  - '' @ config_dest @ '' (permissions: 600)'',
                            ''  - '' @ pre_backup_dest @ '' (permissions: 700)'',
                            ''  - '' @ post_backup_dest @ '' (permissions: 700)'',
                            ''\<newline>Next steps:'',
                            ''1. Edit the script files to replace 'your-app-service' with your actual service'',
                            ''2. Add any additional application-specific commands'',
                            ''3. Test the scripts manually: sudo /etc/azure/pre_backup.sh && sudo /etc/azure/post_backup.sh'',
                            ''4. Monitor backup logs: /var/log/azure/Microsoft.Azure.RecoveryServices.VMSnapshotLinux/extension.log'',
                            ''\<newline>Azure VM application-consistent backup is now configured.''] w4)
                else (1, print ''\<newline>Setup failed. Please check the errors above.'' w4))"

text \<open>
  The script run as a program: \<^verbatim>\<open>if __name__ == "__main__": main()\<close>, then the exit of the
  interpreter, which flushes standard output. When the flush fails the exit status of the
  process is 120, after \<^verbatim>\<open>sys.exit(1)\<close> and after a normal return alike; otherwise it is the
  status \<^verbatim>\<open>main\<close> handed over.
\<close>

definition run_script :: "env \<Rightarrow> world \<Rightarrow> int \<times> world" where
  "run_script e w =
     (case main e w of
        (status, w1) \<Rightarrow>
          (case os_flush_stdout e (sys w1) of
             (None, s2) \<Rightarrow> (status, w1\<lparr>sys := s2\<rparr>)
           | (Some ex, s2) \<Rightarrow> (120, w1\<lparr>sys := s2\<rparr>)))"

section \<open>Vocabulary of the properties\<close>

text \<open>
  A file system is well formed when the root is a directory and every other node sits in
  a directory.
\<close>

definition wf_fs :: "(path \<rightharpoonup> node) \<Rightarrow> bool" where
  "wf_fs f = (f ''/'' = Some Dir \<and> (\<forall>p. f p \<noteq> None \<longrightarrow> p = ''/'' \<or> f (dirname p) = Some Dir))"

text \<open>
  \<open>grows A B s s'\<close>: from \<open>s\<close> to \<open>s'\<close> the file system changed only by new directories
  at paths of \<open>A\<close>, the log grew only by \<^verbatim>\<open>mkdir\<close> calls on paths of \<open>B\<close>, and well-formedness
  was kept.
\<close>

definition grows :: "path set \<Rightarrow> path set \<Rightarrow> os_state \<Rightarrow> os_state \<Rightarrow> bool" where
  "grows A B s s' =
     ((\<forall>q. fs s' q = fs s q \<or> (q \<in> A \<and> fs s q = None \<and> fs s' q = Some Dir))
      \<and> (\<exists>cs. calls s' = calls s @ cs \<and> (\<forall>c\<in>set cs. \<exists>p\<in>B. fst c = Mkdir p))
      \<and> (wf_fs (fs s) \<longrightarrow> wf_fs (fs s')))"

text \<open>The permission bits a file at \<open>p\<close> has right after \<^verbatim>\<open>open(p, 'w')\<close>.\<close>

definition open_mode :: "env \<Rightarrow> os_state \<Rightarrow> path \<Rightarrow> int" where
  "open_mode e s p = (case fs s p of Some (File _ m) \<Rightarrow> m | _ \<Rightarrow> 438 AND NOT (umask e))"

abbreviation error_line :: "path \<Rightarrow> exn \<Rightarrow> string" where
  "error_line p ex \<equiv> ''Error creating '' @ p @ '': '' @ str_exn ex"

text \<open>The four paths of \<^verbatim>\<open>main\<close>.\<close>

abbreviation azure_path :: path where
  "azure_path \<equiv> ''/etc/azure''"

abbreviation config_path :: path where
  "config_path \<equiv> ''/etc/azure/VMSnapshotScriptPluginConfig.json''"

abbreviation pre_path :: path where
  "pre_path \<equiv> ''/etc/azure/pre_backup.sh''"

abbreviation post_path :: path where
  "post_path \<equiv> ''/etc/azure/post_backup.sh''"

text \<open>The lines \<^verbatim>\<open>main\<close> prints before it touches the file system.\<close>

definition banner :: "string list" where
  "banner =
     [''Starting Azure VM application-consistent backup setup...'',
      '''',
      ''IMPORTANT: Before using this script, please:'',
      ''1. Replace 'your-app-service' in the scripts with your actual service name'',
      ''2. Add any additional application-specific commands as needed'',
      ''3. Test the scripts manually before relying on them for backups'',
      '''']"

text \<open>The two lines of the privilege error.\<close>

definition privilege_error :: "string list" where
  "privilege_error =
     [''This script must be run as root (sudo).'',
      ''Usage: sudo python3 setup_application_consistent_backup.py'']"

text \<open>The system calls issued between two states of the process, oldest first.\<close>

definition new_calls :: "world \<Rightarrow> world \<Rightarrow> (syscall \<times> exn option) list" where
  "new_calls w w' = drop (length (calls (sys w))) (calls (sys w'))"

fun syscall_path :: "syscall \<Rightarrow> path" where
  "syscall_path (Mkdir p) = p"
| "syscall_path (Open p) = p"
| "syscall_path (Write p c) = p"
| "syscall_path (Chmod p m) = p"
| "syscall_path Flush = []"

fun is_mkdir :: "syscall \<Rightarrow> bool" where
  "is_mkdir (Mkdir p) = True"
| "is_mkdir c = False"

text \<open>
  The write of the artifact at \<open>p\<close> was attempted when the log holds its \<^verbatim>\<open>open\<close>; it
  failed when one of its calls (open, write, chmod) raised.
\<close>

definition attempted :: "path \<Rightarrow> (syscall \<times> exn option) list \<Rightarrow> bool" where
  "attempted p T = (Open p \<in> set (map fst T))"

definition failed :: "path \<Rightarrow> (syscall \<times> exn option) list \<Rightarrow> bool" where
  "failed p T = list_ex (\<lambda>x. \<not> is_mkdir (fst x) \<and> syscall_path (fst x) = p \<and> snd x \<noteq> None) T"

text \<open>
  Two concrete inputs: a root process whose environment makes no call fail (the umask is
  \<^verbatim>\<open>0o022\<close>), and a process on a file system that holds the root directory only.
\<close>

definition root_env :: env where
  "root_env = \<lparr>os_geteuid = Some 0, umask = 18, fault = Map.empty, short_write = 0\<rparr>"

definition bare_world :: world where
  "bare_world = \<lparr>sys = \<lparr>fs = [''/'' \<mapsto> Dir], calls = []\<rparr>, out = []\<rparr>"

text \<open>
  A root process on a read-only file system, one whose \<^verbatim>\<open>chmod\<close> of the pre-hook script is
  refused, and a file system where \<^verbatim>\<open>/etc/azure\<close> exists and is empty.
\<close>

definition rofs_env :: env where
  "rofs_env = \<lparr>os_geteuid = Some 0, umask = 18, fault = [Mkdir ''/etc/azure'' \<mapsto> EROFS], short_write = 0\<rparr>"



text \<open>A platform whose \<^verbatim>\<open>os\<close> module has no \<^verbatim>\<open>geteuid\<close>.\<close>

definition no_geteuid_env :: env where
  "no_geteuid_env = \<lparr>os_geteuid = None, umask = 0, fault = Map.empty, short_write = 0\<rparr>"

text \<open>
  A process of an ordinary user; processes whose standard output goes to a full device, so
  that the flush at exit fails; and a root process that finds no space left when it
  writes the pre-hook script.
\<close>

definition user_env :: env where
  "user_env = \<lparr>os_geteuid = Some 1000, umask = 18, fault = Map.empty, short_write = 0\<rparr>"

definition full_stdout_user_env :: env where
  "full_stdout_user_env =
     \<lparr>os_geteuid = Some 1000, umask = 18, fault = [Flush \<mapsto> ENOSPC], short_write = 0\<rparr>"


definition full_stdout_rofs_env :: env where
  "full_stdout_rofs_env =
     \<lparr>os_geteuid = Some 0, umask = 18,
      fault = [Mkdir ''/etc/azure'' \<mapsto> EROFS, Flush \<mapsto> ENOSPC], short_write = 0\<rparr>"

definition nospace_env :: env where
  "nospace_env =
     \<lparr>os_geteuid = Some 0, umask = 18,
      fault = [Write ''/etc/azure/pre_backup.sh'' PRE_BACKUP_CONTENT \<mapsto> ENOSPC],
      short_write = 0\<rparr>"
subsection \<open>JSON texts\<close>

text \<open>
  The grammar of RFC 8259, as a parser with a bound on its recursion. Strings are kept as
  written: escape sequences are checked, not decoded. A number without fraction and
  exponent is an integer.
\<close>

datatype json =
  JNull | JBool bool | JInt int | JFrac string | JString string
  | JArray "json list" | JObject "(string \<times> json) list"

definition is_ws :: "char \<Rightarrow> bool" where
  "is_ws c = (c = CHR '' '' \<or> c = CHR 0x0A \<or> c = CHR 0x0D \<or> c = CHR 0x09)"

definition skip_ws :: "string \<Rightarrow> string" where
  "skip_ws s = dropWhile is_ws s"

definition is_digit :: "char \<Rightarrow> bool" where
  "is_digit c = (c \<in> set ''0123456789'')"

definition is_hex :: "char \<Rightarrow> bool" where
  "is_hex c = (c \<in> set ''0123456789abcdefABCDEF'')"

text \<open>The characters of a string up to its closing quote; escapes are checked and kept as written.\<close>

fun json_chars :: "string \<Rightarrow> (string \<times> string) option" where
  "json_chars [] = None"
| "json_chars (c # cs) =
     (if c = CHR 0x22 then Some ([], cs)
      else if c = CHR 0x5C then
        (case cs of
           [] \<Rightarrow> None
         | d # ds \<Rightarrow>
             if d \<in> set [CHR 0x22, CHR 0x5C, CHR ''/'', CHR ''b'', CHR ''f'', CHR ''n'', CHR ''r'', CHR ''t'']
             then map_option (\<lambda>(t, r). (c # d # t, r)) (json_chars ds)
             else if d = CHR ''u'' \<and> 4 \<le> length ds \<and> list_all is_hex (take 4 ds)
             then map_option (\<lambda>(t, r). (c # d # take 4 ds @ t, r)) (json_chars (drop 4 ds))
             else None)
      else if of_char c < (32 :: nat) then None
      else map_option (\<lambda>(t, r). (c # t, r)) (json_chars cs))"

definition digit_val :: "char \<Rightarrow> int" where
  "digit_val c = int (of_char c) - 48"

definition int_of_digits :: "string \<Rightarrow> int" where
  "int_of_digits ds = foldl (\<lambda>n c. 10 * n + digit_val c) 0 ds"

text \<open>A number: optional minus, integer part without leading zeros, optional fraction and exponent.\<close>

definition json_number :: "string \<Rightarrow> (json \<times> string) option" where
  "json_number s =
     (let (sign, s1) = (case s of c # r \<Rightarrow> if c = CHR ''-'' then ([c], r) else ([], s) | [] \<Rightarrow> ([], s));
          ip = takeWhile is_digit s1;
          s2 = dropWhile is_digit s1;
          (fp, s3) = (case s2 of
                        c # r \<Rightarrow> if c = CHR ''.'' then (c # takeWhile is_digit r, dropWhile is_digit r)
                                 else ([], s2)
                      | [] \<Rightarrow> ([], s2));
          (ep, s4) = (case s3 of
                        c # r \<Rightarrow>
                          if c = CHR ''e'' \<or> c = CHR ''E''
                          then (case r of
                                  d # r' \<Rightarrow>
                                    if d = CHR ''+'' \<or> d = CHR ''-''
                                    then (c # d # takeWhile is_digit r', dropWhile is_digit r')
                                    else (c # takeWhile is_digit r, dropWhile is_digit r)
                                | [] \<Rightarrow> ([c], r))
                          else ([], s3)
                      | [] \<Rightarrow> ([], s3))
      in if ip = [] \<or> (hd ip = CHR ''0'' \<and> length ip \<noteq> 1) then None
         else if fp = [CHR ''.''] then None
         else if ep \<noteq> [] \<and> \<not> is_digit (last ep) then None
         else if fp = [] \<and> ep = []
           then Some (JInt (if sign = [] then int_of_digits ip else - int_of_digits ip), s4)
         else Some (JFrac (sign @ ip @ fp @ ep), s4))"

fun json_value :: "nat \<Rightarrow> string \<Rightarrow> (json \<times> string) option"
  and json_elements :: "nat \<Rightarrow> string \<Rightarrow> (json list \<times> string) option"
  and json_members :: "nat \<Rightarrow> string \<Rightarrow> ((string \<times> json) list \<times> string) option"
where
  "json_value 0 s = None"
| "json_value (Suc n) s =
     (case skip_ws s of
        [] \<Rightarrow> None
      | c # r \<Rightarrow>
          if c = CHR ''{'' then
            (case skip_ws r of
               [] \<Rightarrow> None
             | d # r' \<Rightarrow>
                 if d = CHR ''}'' then Some (JObject [], r')
                 else map_option (\<lambda>(ms, t). (JObject ms, t)) (json_members n r))
          else if c = CHR ''['' then
            (case skip_ws r of
               [] \<Rightarrow> None
             | d # r' \<Rightarrow>
                 if d = CHR '']'' then Some (JArray [], r')
                 else map_option (\<lambda>(vs, t). (JArray vs, t)) (json_elements n r))
          else if c = CHR 0x22 then map_option (\<lambda>(t, r'). (JString t, r')) (json_chars r)
          else if take 4 (c # r) = ''true'' then Some (JBool True, drop 4 (c # r))
          else if take 5 (c # r) = ''false'' then Some (JBool False, drop 5 (c # r))
          else if take 4 (c # r) = ''null'' then Some (JNull, drop 4 (c # r))
          else json_number (c # r))"
| "json_elements 0 s = None"
| "json_elements (Suc n) s =
     (case json_value n s of
        None \<Rightarrow> None
      | Some (v, r) \<Rightarrow>
          (case skip_ws r of
             [] \<Rightarrow> None
           | c # r' \<Rightarrow>
               if c = CHR '','' then map_option (\<lambda>(vs, t). (v # vs, t)) (json_elements n r')
               else if c = CHR '']'' then Some ([v], r')
               else None))"
| "json_members 0 s = None"
| "json_members (Suc n) s =
     (case skip_ws s of
        [] \<Rightarrow> None
      | q # r \<Rightarrow>
          if q \<noteq> CHR 0x22 then None
          else
            (case json_chars r of
               None \<Rightarrow> None
             | Some (k, r1) \<Rightarrow>
                 (case skip_ws r1 of
                    [] \<Rightarrow> None
                  | c # r2 \<Rightarrow>
                      if c \<noteq> CHR '':'' then None
                      else
                        (case json_value n r2 of
                           None \<Rightarrow> None
                         | Some (v, r3) \<Rightarrow>
                             (case skip_ws r3 of
                                [] \<Rightarrow> None
                              | d # r4 \<Rightarrow>
                                  if d = CHR '','' then map_option (\<lambda>(ms, t). ((k, v) # ms, t)) (json_members n r4)
                                  else if d = CHR ''}'' then Some ([(k, v)], r4)
                                  else None)))))"

definition parse_json :: "string \<Rightarrow> json option" where
  "parse_json s =
     (case json_value (2 * length s + 2) s of
        None \<Rightarrow> None
      | Some (v, r) \<Rightarrow> if skip_ws r = [] then Some v else None)"

text \<open>
  The schema of the plugin configuration: the fields an object must have, each with the
  type of its value. An object conforms when its keys are distinct, it has as many
  members as the schema has fields, and every field of the schema is a member of the
  right type.
\<close>

datatype jtype = TString | TInteger | TBoolean | TStrings nat

fun has_type :: "json \<Rightarrow> jtype \<Rightarrow> bool" where
  "has_type (JString s) TString = True"
| "has_type (JInt n) TInteger = True"
| "has_type (JBool b) TBoolean = True"
| "has_type (JArray vs) (TStrings n) =
     (length vs = n \<and> list_all (\<lambda>v. case v of JString s \<Rightarrow> True | _ \<Rightarrow> False) vs)"
| "has_type v t = False"

definition config_schema :: "(string \<times> jtype) list" where
  "config_schema =
     [(''pluginName'', TString),
      (''preScriptLocation'', TString),
      (''postScriptLocation'', TString),
      (''preScriptParams'', TStrings 2),
      (''postScriptParams'', TStrings 2),
      (''preScriptNoOfRetries'', TInteger),
      (''postScriptNoOfRetries'', TInteger),
      (''timeoutInSeconds'', TInteger),
      (''continueBackupOnFailure'', TBoolean),
      (''fsFreezeEnabled'', TBoolean)]"

definition conforms :: "json \<Rightarrow> (string \<times> jtype) list \<Rightarrow> bool" where
  "conforms v sch =
     (case v of
        JObject ms \<Rightarrow>
          distinct (map fst ms) \<and> length ms = length sch
          \<and> list_all (\<lambda>(k, t). case map_of ms k of None \<Rightarrow> False | Some x \<Rightarrow> has_type x t) sch
      | _ \<Rightarrow> False)"

section \<open>Auxiliary facts\<close>

subsection \<open>The fixed paths\<close>

lemma split_azure: "makedirs_split ''/etc/azure'' = (''/etc'', ''azure'')"
  by (simp add: makedirs_split_def posix_split_def)

lemma split_etc: "makedirs_split ''/etc'' = (''/'', ''etc'')"
  by (simp add: makedirs_split_def posix_split_def)

lemma split_root: "makedirs_split ''/'' = (''/'', [])"
  by (simp add: makedirs_split_def posix_split_def)

lemma dirname_azure: "dirname ''/etc/azure'' = ''/etc''" "dirname ''/etc'' = ''/''" "dirname ''/'' = ''/''"
  "dirname ''/etc/azure/VMSnapshotScriptPluginConfig.json'' = ''/etc/azure''"
  "dirname ''/etc/azure/pre_backup.sh'' = ''/etc/azure''"
  "dirname ''/etc/azure/post_backup.sh'' = ''/etc/azure''"
  by (simp_all add: dirname_def posix_split_def)

lemma joins:
  "os_path_join ''/etc/azure'' ''pre_backup.sh'' = ''/etc/azure/pre_backup.sh''"
  "os_path_join ''/etc/azure'' ''post_backup.sh'' = ''/etc/azure/post_backup.sh''"
  "os_path_join ''/etc/azure'' ''VMSnapshotScriptPluginConfig.json'' = ''/etc/azure/VMSnapshotScriptPluginConfig.json''"
  by (simp_all add: os_path_join_def)

lemma makedirs_root: "os_makedirs e ''/'' s = mkdir_exist_ok e ''/'' s"
  by (subst os_makedirs.simps) (simp add: split_root)

lemma makedirs_etc:
  "os_makedirs e ''/etc'' s =
     (if path_exists s ''/'' then mkdir_exist_ok e ''/etc'' s
      else (case mkdir_exist_ok e ''/'' s of
              (None, s1) \<Rightarrow> mkdir_exist_ok e ''/etc'' s1
            | (Some ex, s1) \<Rightarrow>
                if is_FileExistsError ex then mkdir_exist_ok e ''/etc'' s1 else (Some ex, s1)))"
  by (subst os_makedirs.simps) (simp add: split_etc makedirs_root split: prod.split option.split)

lemma makedirs_azure:
  "os_makedirs e ''/etc/azure'' s =
     (if path_exists s ''/etc'' then mkdir_exist_ok e ''/etc/azure'' s
      else (case os_makedirs e ''/etc'' s of
              (None, s1) \<Rightarrow> mkdir_exist_ok e ''/etc/azure'' s1
            | (Some ex, s1) \<Rightarrow>
                if is_FileExistsError ex then mkdir_exist_ok e ''/etc/azure'' s1 else (Some ex, s1)))"
  by (subst os_makedirs.simps) (simp add: split_azure split: prod.split option.split)

subsection \<open>Making directories\<close>

lemma os_mkdir_calls: "calls (snd (os_mkdir e p s)) = calls s @ [(Mkdir p, fst (os_mkdir e p s))]"
  by (simp add: os_mkdir_def logged_def Let_def)

lemma os_mkdir_fs:
  "fs (snd (os_mkdir e p s)) = (if fst (os_mkdir e p s) = None then (fs s)(p \<mapsto> Dir) else fs s)"
  by (simp add: os_mkdir_def logged_def Let_def raise_of_def split: option.split)

lemma os_mkdir_ok:
  "fst (os_mkdir e p s) = None \<longleftrightarrow>
     fault e (Mkdir p) = None \<and> fs s (dirname p) = Some Dir \<and> fs s p = None"
  by (auto simp add: os_mkdir_def logged_def Let_def raise_of_def parent_error_def
      split: option.splits node.splits)

lemma mkdir_exist_ok_calls:
  "\<exists>r. calls (snd (mkdir_exist_ok e p s)) = calls s @ [(Mkdir p, r)]
     \<and> (fst (mkdir_exist_ok e p s) \<noteq> None \<longrightarrow> r \<noteq> None)"
  using os_mkdir_calls [of e p s]
  by (cases "os_mkdir e p s") (auto simp add: mkdir_exist_ok_def split: option.splits)

lemma mkdir_exist_ok_fs:
  "fs (snd (mkdir_exist_ok e p s)) =
     (if fault e (Mkdir p) = None \<and> fs s (dirname p) = Some Dir \<and> fs s p = None
      then (fs s)(p \<mapsto> Dir) else fs s)"
  using os_mkdir_fs [of e p s] os_mkdir_ok [of e p s]
  by (cases "os_mkdir e p s") (auto simp add: mkdir_exist_ok_def split: option.splits)

lemma mkdir_exist_ok_result:
  "fst (mkdir_exist_ok e p s) = None \<longleftrightarrow>
     fs s p = Some Dir \<or> (fault e (Mkdir p) = None \<and> fs s (dirname p) = Some Dir \<and> fs s p = None)"
  using os_mkdir_fs [of e p s] os_mkdir_ok [of e p s]
  by (cases "os_mkdir e p s") (auto simp add: mkdir_exist_ok_def path_isdir_def split: option.splits)

lemma grows_refl: "grows A B s s"
  by (simp add: grows_def)

lemma grows_trans: "grows A B s s1 \<Longrightarrow> grows A B s1 s2 \<Longrightarrow> grows A B s s2"
  unfolding grows_def
  apply (intro conjI)
    apply (metis)
   apply (elim conjE exE)
  subgoal for cs cs' by (rule exI [of _ "cs @ cs'"]) auto
  apply blast
  done

lemma grows_mono: "grows A B s s' \<Longrightarrow> A \<subseteq> A' \<Longrightarrow> B \<subseteq> B' \<Longrightarrow> grows A' B' s s'"
  unfolding grows_def by (meson subsetD)

lemma wf_fs_mkdir:
  assumes "wf_fs f" and "f p = None" and "f (dirname p) = Some Dir"
  shows "wf_fs (f(p \<mapsto> Dir))"
  using assms unfolding wf_fs_def by (metis fun_upd_apply option.distinct(1))

lemma mkdir_exist_ok_grows:
  "grows (if p = ''/'' then {} else {p}) {p} s (snd (mkdir_exist_ok e p s))"
proof -
  obtain r where c: "calls (snd (mkdir_exist_ok e p s)) = calls s @ [(Mkdir p, r)]"
    using mkdir_exist_ok_calls [of e p s] by blast
  have root: "p = ''/'' \<Longrightarrow> fs (snd (mkdir_exist_ok e p s)) = fs s"
    by (auto simp add: mkdir_exist_ok_fs dirname_azure)
  show ?thesis
    unfolding grows_def
  proof (intro conjI)
    show "\<forall>q. fs (snd (mkdir_exist_ok e p s)) q = fs s q \<or>
         q \<in> (if p = ''/'' then {} else {p}) \<and>
         fs s q = None \<and> fs (snd (mkdir_exist_ok e p s)) q = Some Dir"
      using root by (cases "p = ''/''") (auto simp add: mkdir_exist_ok_fs)
    show "\<exists>cs. calls (snd (mkdir_exist_ok e p s)) = calls s @ cs \<and> (\<forall>c\<in>set cs. \<exists>p\<in>{p}. fst c = Mkdir p)"
      using c by auto
    show "wf_fs (fs s) \<longrightarrow> wf_fs (fs (snd (mkdir_exist_ok e p s)))"
      by (auto simp add: mkdir_exist_ok_fs wf_fs_mkdir)
  qed
qed

lemma makedirs_etc_grows:
  "grows {''/etc''} {''/'', ''/etc''} s (snd (os_makedirs e ''/etc'' s))"
proof -
  have a: "grows {''/etc''} {''/'', ''/etc''} t (snd (mkdir_exist_ok e ''/etc'' t))" for t
    using mkdir_exist_ok_grows [of "''/etc''" t e] by (auto elim: grows_mono)
  have b: "grows {''/etc''} {''/'', ''/etc''} t (snd (mkdir_exist_ok e ''/'' t))" for t
    using mkdir_exist_ok_grows [of "''/''" t e] by (auto elim: grows_mono)
  show ?thesis
  proof (cases "path_exists s ''/''")
    case True
    then show ?thesis using a by (simp add: makedirs_etc)
  next
    case False
    obtain r1 s1 where m: "mkdir_exist_ok e ''/'' s = (r1, s1)"
      by (cases "mkdir_exist_ok e ''/'' s")
    have g1: "grows {''/etc''} {''/'', ''/etc''} s s1"
      using b [of s] m by simp
    have g2: "grows {''/etc''} {''/'', ''/etc''} s (snd (mkdir_exist_ok e ''/etc'' s1))"
      using g1 a [of s1] by (rule grows_trans)
    show ?thesis
      using False m g1 g2 by (auto simp add: makedirs_etc split: option.splits)
  qed
qed

lemma makedirs_azure_grows:
  "grows {''/etc'', ''/etc/azure''} {''/'', ''/etc'', ''/etc/azure''} s (snd (os_makedirs e ''/etc/azure'' s))"
    (is "grows ?A ?B _ _")
proof -
  have a: "grows ?A ?B t (snd (mkdir_exist_ok e ''/etc/azure'' t))" for t
    using mkdir_exist_ok_grows [of "''/etc/azure''" t e] by (auto elim: grows_mono)
  have b: "grows ?A ?B t (snd (os_makedirs e ''/etc'' t))" for t
    using makedirs_etc_grows [of t e] by (auto elim: grows_mono)
  show ?thesis
  proof (cases "path_exists s ''/etc''")
    case True
    then show ?thesis using a by (simp add: makedirs_azure)
  next
    case False
    obtain r1 s1 where m: "os_makedirs e ''/etc'' s = (r1, s1)"
      by (cases "os_makedirs e ''/etc'' s")
    have g1: "grows ?A ?B s s1"
      using b [of s] m by simp
    have g2: "grows ?A ?B s (snd (mkdir_exist_ok e ''/etc/azure'' s1))"
      using g1 a [of s1] by (rule grows_trans)
    show ?thesis
      using False m g1 g2 by (auto simp add: makedirs_azure split: option.splits)
  qed
qed

lemma makedirs_azure_result:
  "fs (snd (os_makedirs e ''/etc/azure'' s)) ''/etc/azure'' =
     (if fst (os_makedirs e ''/etc/azure'' s) = None then Some Dir else fs s ''/etc/azure'')"
proof -
  have a: "fs (snd (mkdir_exist_ok e ''/etc/azure'' t)) ''/etc/azure'' =
     (if fst (mkdir_exist_ok e ''/etc/azure'' t) = None then Some Dir else fs t ''/etc/azure'')" for t
    by (auto simp add: mkdir_exist_ok_fs mkdir_exist_ok_result)
  show ?thesis
  proof (cases "path_exists s ''/etc''")
    case True
    then show ?thesis using a by (simp add: makedirs_azure)
  next
    case False
    obtain r1 s1 where m: "os_makedirs e ''/etc'' s = (r1, s1)"
      by (cases "os_makedirs e ''/etc'' s")
    have "grows {''/etc''} {''/'', ''/etc''} s s1"
      using makedirs_etc_grows [of s e] m by simp
    then have same: "fs s1 ''/etc/azure'' = fs s ''/etc/azure''"
      by (auto simp add: grows_def)
    show ?thesis
      using False m same a [of s1] by (auto simp add: makedirs_azure split: option.splits)
  qed
qed

lemma makedirs_azure_calls_nonempty:
  "length (calls s) < length (calls (snd (os_makedirs e ''/etc/azure'' s)))"
proof -
  have a: "length (calls t) < length (calls (snd (mkdir_exist_ok e p t)))" for t p
    using mkdir_exist_ok_calls [of e p t] by auto
  have b: "length (calls s) \<le> length (calls (snd (os_makedirs e ''/etc'' s)))"
    using makedirs_etc_grows [of s e] by (auto simp add: grows_def)
  show ?thesis
  proof (cases "path_exists s ''/etc''")
    case True
    then show ?thesis using a by (simp add: makedirs_azure)
  next
    case False
    have c: "length (calls s) < length (calls (snd (os_makedirs e ''/etc'' s)))"
      using False a [of s "''/etc''"] a [of s "''/''"] a [of "snd (mkdir_exist_ok e ''/'' s)" "''/etc''"]
      by (auto simp add: makedirs_etc split: prod.splits option.splits) 
    show ?thesis
      using False c a [of "snd (os_makedirs e ''/etc'' s)" "''/etc/azure''"]
      by (auto simp add: makedirs_azure split: prod.splits option.splits)
  qed
qed

subsection \<open>Writing a file\<close>

lemma os_open_w_spec:
  assumes "os_open_w e p s = (r, s')"
  shows "calls s' = calls s @ [(Open p, r)]"
    and "fs s' = (if r = None then (fs s)(p \<mapsto> File [] (open_mode e s p)) else fs s)"
    and "r = None \<longleftrightarrow> fault e (Open p) = None \<and>
           ((\<exists>c m. fs s p = Some (File c m)) \<or> (fs s p = None \<and> fs s (dirname p) = Some Dir))"
  using assms
  by (auto simp add: os_open_w_def logged_def Let_def raise_of_def parent_error_def open_mode_def
      split: option.splits node.splits)

lemma os_write_spec:
  assumes "os_write e p c s = (r, s')" and "fs s p = Some (File c0 m0)"
  shows "calls s' = calls s @ [(Write p c, r)]"
    and "fs s' = (fs s)(p \<mapsto> File (if r = None then c else take (short_write e) c) m0)"
    and "r = None \<longleftrightarrow> fault e (Write p c) = None"
  using assms
  by (auto simp add: os_write_def logged_def split: option.splits node.splits)

lemma os_chmod_spec:
  assumes "os_chmod e p m s = (r, s')" and "fs s p = Some (File c0 m0)"
  shows "calls s' = calls s @ [(Chmod p m, r)]"
    and "fs s' = (if r = None then (fs s)(p \<mapsto> File c0 (m AND 4095)) else fs s)"
    and "r = None \<longleftrightarrow> fault e (Chmod p m) = None"
  using assms
  by (auto simp add: os_chmod_def logged_def Let_def raise_of_def split: option.splits node.splits)

lemma create_file_cases:
  assumes run: "create_file_with_content_and_permissions e p c m w = (ok, w')"
  obtains
    (open_fails) ex where
      "\<not> ok"
      "calls (sys w') = calls (sys w) @ [(Open p, Some ex)]"
      "fs (sys w') = fs (sys w)"
      "out w' = out w @ [error_line p ex]"
      "\<not> (fault e (Open p) = None \<and>
           ((\<exists>c m. fs (sys w) p = Some (File c m)) \<or> (fs (sys w) p = None \<and> fs (sys w) (dirname p) = Some Dir)))"
  | (write_fails) ex where
      "\<not> ok"
      "calls (sys w') = calls (sys w) @ [(Open p, None), (Write p c, Some ex)]"
      "fs (sys w') = (fs (sys w))(p \<mapsto> File (take (short_write e) c) (open_mode e (sys w) p))"
      "out w' = out w @ [error_line p ex]"
      "fault e (Write p c) \<noteq> None"
  | (chmod_fails) ex where
      "\<not> ok"
      "calls (sys w') = calls (sys w) @ [(Open p, None), (Write p c, None), (Chmod p m, Some ex)]"
      "fs (sys w') = (fs (sys w))(p \<mapsto> File c (open_mode e (sys w) p))"
      "out w' = out w @ [''Created '' @ p, error_line p ex]"
      "fault e (Chmod p m) \<noteq> None"
  | (succeeds)
      "ok"
      "calls (sys w') = calls (sys w) @ [(Open p, None), (Write p c, None), (Chmod p m, None)]"
      "fs (sys w') = (fs (sys w))(p \<mapsto> File c (m AND 4095))"
      "out w' = out w @ [''Created '' @ p, ''Set permissions '' @ oct m @ '' on '' @ p]"
      "fault e (Open p) = None" "fault e (Write p c) = None" "fault e (Chmod p m) = None"
      "(\<exists>c m. fs (sys w) p = Some (File c m)) \<or> (fs (sys w) p = None \<and> fs (sys w) (dirname p) = Some Dir)"
proof -
  obtain r1 s1 where o: "os_open_w e p (sys w) = (r1, s1)"
    by (cases "os_open_w e p (sys w)")
  note o_spec = os_open_w_spec [OF o]
  show thesis
  proof (cases r1)
    case (Some ex)
    then show thesis
      using run o o_spec open_fails [of ex]
      by (auto simp add: create_file_with_content_and_permissions_def file_error_def print_def)
  next
    case None
    have f1: "fs s1 p = Some (File [] (open_mode e (sys w) p))"
      using o_spec(2) None by simp
    obtain r2 s2 where wr: "os_write e p c s1 = (r2, s2)"
      by (cases "os_write e p c s1")
    note w_spec = os_write_spec [OF wr f1]
    show thesis
    proof (cases r2)
      case (Some ex)
      then show thesis
        using run o None wr o_spec w_spec write_fails [of ex]
        by (auto simp add: create_file_with_content_and_permissions_def file_error_def print_def)
    next
      case wnone: None
      have f2: "fs s2 p = Some (File c (open_mode e (sys w) p))"
        using w_spec(2) wnone by simp
      obtain r3 s3 where ch: "os_chmod e p m s2 = (r3, s3)"
        by (cases "os_chmod e p m s2")
      note c_spec = os_chmod_spec [OF ch f2]
      show thesis
      proof (cases r3)
        case (Some ex)
        then show thesis
          using run o None wr wnone ch o_spec w_spec c_spec chmod_fails [of ex]
          by (auto simp add: create_file_with_content_and_permissions_def file_error_def print_def)
      next
        case cnone: None
        show thesis
        proof (rule succeeds)
          show ok using run o None wr wnone ch cnone
            by (auto simp add: create_file_with_content_and_permissions_def file_error_def print_def)
          show "calls (sys w') = calls (sys w) @ [(Open p, None), (Write p c, None), (Chmod p m, None)]"
            using run o None wr wnone ch cnone o_spec(1) w_spec(1) c_spec(1)
            by (auto simp add: create_file_with_content_and_permissions_def file_error_def print_def)
          show "fs (sys w') = (fs (sys w))(p \<mapsto> File c (m AND 4095))"
            using run o None wr wnone ch cnone o_spec(2) w_spec(2) c_spec(2)
            by (auto simp add: create_file_with_content_and_permissions_def file_error_def print_def)
          show "out w' = out w @ [''Created '' @ p, ''Set permissions '' @ oct m @ '' on '' @ p]"
            using run o None wr wnone ch cnone
            by (auto simp add: create_file_with_content_and_permissions_def file_error_def print_def)
          show "fault e (Open p) = None" using o_spec(3) None by simp
          show "fault e (Write p c) = None" using w_spec(3) wnone by simp
          show "fault e (Chmod p m) = None" using c_spec(3) cnone by simp
          show "(\<exists>c m. fs (sys w) p = Some (File c m)) \<or> (fs (sys w) p = None \<and> fs (sys w) (dirname p) = Some Dir)"
            using o_spec(3) None by simp
        qed
      qed
    qed
  qed
qed

subsection \<open>The steps of \<^verbatim>\<open>main\<close>\<close>

lemma modes: "S_IRUSR OR S_IWUSR = 384" "S_IRWXU = 448" "(384::int) AND 4095 = 384" "(448::int) AND 4095 = 448"
  by (simp_all add: S_IRUSR_def S_IWUSR_def S_IRWXU_def)

lemma stat_modes_octal: "oct (S_IRUSR OR S_IWUSR) = ''0o600''" "oct S_IRWXU = ''0o700''"
  by (simp_all add: modes oct_def digit_def)

lemma prints_sys [simp]: "sys (prints ls w) = sys w"
  by (induction ls arbitrary: w) (simp_all add: prints_def print_def)

lemma prints_out [simp]: "out (prints ls w) = out w @ ls"
  by (induction ls arbitrary: w) (simp_all add: prints_def print_def)

lemma print_sys [simp]: "sys (print l w) = sys w" and print_out [simp]: "out (print l w) = out w @ [l]"
  by (simp_all add: print_def)

lemma create_directory_spec:
  assumes "create_directory_if_not_exists e d w = (ok, w')"
  shows "sys w' = snd (os_makedirs e d (sys w))"
    and "ok \<longleftrightarrow> fst (os_makedirs e d (sys w)) = None"
    and "\<exists>l. out w' = out w @ [l]"
  using assms
  by (auto simp add: create_directory_if_not_exists_def print_def split: prod.splits option.splits)

lemma main_denied:
  assumes "os_geteuid e = Some uid" and "uid \<noteq> 0"
  shows "main e w = (1, prints [''This script must be run as root (sudo).'',
                               ''Usage: sudo python3 setup_application_consistent_backup.py''] w)"
  using assms by (simp add: main_def)

lemma main_cases:
  assumes "os_geteuid e = None \<or> os_geteuid e = Some 0"
  obtains
    (dir_fails) w1 where
      "create_directory_if_not_exists e azure_path (prints banner w) = (False, w1)"
      "main e w = (1, w1)"
  | (dir_ok) w1 r1 w2 r2 w3 r3 w4 where
      "create_directory_if_not_exists e azure_path (prints banner w) = (True, w1)"
      "create_file_with_content_and_permissions e config_path CONFIG_CONTENT 384 w1 = (r1, w2)"
      "create_file_with_content_and_permissions e pre_path PRE_BACKUP_CONTENT 448 w2 = (r2, w3)"
      "create_file_with_content_and_permissions e post_path POST_BACKUP_CONTENT 448 w3 = (r3, w4)"
      "fst (main e w) = (if r1 \<and> r2 \<and> r3 then 0 else 1)"
      "sys (snd (main e w)) = sys w4"
      "\<exists>ls. out (snd (main e w)) = out w4 @ ls"
proof -
  obtain ok w1 where d: "create_directory_if_not_exists e azure_path (prints banner w) = (ok, w1)"
    by (cases "create_directory_if_not_exists e azure_path (prints banner w)")
  obtain r1 w2 where f1: "create_file_with_content_and_permissions e config_path CONFIG_CONTENT 384 w1 = (r1, w2)"
    by (cases "create_file_with_content_and_permissions e config_path CONFIG_CONTENT 384 w1")
  obtain r2 w3 where f2: "create_file_with_content_and_permissions e pre_path PRE_BACKUP_CONTENT 448 w2 = (r2, w3)"
    by (cases "create_file_with_content_and_permissions e pre_path PRE_BACKUP_CONTENT 448 w2")
  obtain r3 w4 where f3: "create_file_with_content_and_permissions e post_path POST_BACKUP_CONTENT 448 w3 = (r3, w4)"
    by (cases "create_file_with_content_and_permissions e post_path POST_BACKUP_CONTENT 448 w3")
  show thesis
  proof (cases ok)
    case False
    have "main e w = (1, w1)"
      using assms d False by (auto simp add: main_def Let_def banner_def)
    then show thesis using dir_fails d False by simp
  next
    case True
    have m: "main e w = (if r1 \<and> r2 \<and> r3
          then (0, prints
                           [''\<newline>Setup completed successfully!'',
                            ''Files created in /etc/azure:'',
                            ''  - '' @ config_path @ '' (permissions: 600)'',
                            ''  - '' @ pre_path @ '' (permissions: 700)'',
                            ''  - '' @ post_path @ '' (permissions: 700)'',
                            ''\<newline>Next steps:'',
                            ''1. Edit the script files to replace 'your-app-service' with your actual service'',
                            ''2. Add any additional application-specific commands'',
                            ''3. Test the scripts manually: sudo /etc/azure/pre_backup.sh && sudo /etc/azure/post_backup.sh'',
                            ''4. Monitor backup logs: /var/log/azure/Microsoft.Azure.RecoveryServices.VMSnapshotLinux/extension.log'',
                            ''\<newline>Azure VM application-consistent backup is now configured.''] w4)
                else (1, print ''\<newline>Setup failed. Please check the errors above.'' w4))"
      using assms d True f1 f2 f3
      by (auto simp add: main_def Let_def banner_def joins modes)
    show thesis
    proof (rule dir_ok [OF _ f1 f2 f3])
      show "create_directory_if_not_exists e azure_path (prints banner w) = (True, w1)"
        using d True by simp
      show "fst (main e w) = (if r1 \<and> r2 \<and> r3 then 0 else 1)"
        using m by simp
      show "sys (snd (main e w)) = sys w4"
        using m by simp
      show "\<exists>ls. out (snd (main e w)) = out w4 @ ls"
        using m by simp
    qed
  qed
qed


lemma attempted_append: "attempted p (T @ U) \<longleftrightarrow> attempted p T \<or> attempted p U"
  by (auto simp add: attempted_def)


lemma create_file_trace:
  assumes "create_file_with_content_and_permissions e p c m w = (ok, w')"
  obtains T n where
    "calls (sys w') = calls (sys w) @ T"
    "map fst T = take n [Open p, Write p c, Chmod p m]" "0 < n"
    "failed p T \<longleftrightarrow> \<not> ok" "attempted p T"
    "\<And>q. q \<noteq> p \<Longrightarrow> \<not> failed q T \<and> \<not> attempted q T"
    "\<not> list_ex (\<lambda>x. is_mkdir (fst x)) T"
  using assms
proof (cases rule: create_file_cases)
  case (open_fails ex)
  show ?thesis
    by (rule that [of "[(Open p, Some ex)]" 1])
       (use open_fails in \<open>auto simp add: failed_def attempted_def\<close>)
next
  case (write_fails ex)
  show ?thesis
    by (rule that [of "[(Open p, None), (Write p c, Some ex)]" 2])
       (use write_fails in \<open>auto simp add: failed_def attempted_def\<close>)
next
  case (chmod_fails ex)
  show ?thesis
    by (rule that [of "[(Open p, None), (Write p c, None), (Chmod p m, Some ex)]" 3])
       (use chmod_fails in \<open>auto simp add: failed_def attempted_def\<close>)
next
  case succeeds
  show ?thesis
    by (rule that [of "[(Open p, None), (Write p c, None), (Chmod p m, None)]" 3])
       (use succeeds in \<open>auto simp add: failed_def attempted_def\<close>)
qed

lemma create_file_frame:
  assumes "create_file_with_content_and_permissions e p c m w = (ok, w')" and "q \<noteq> p"
  shows "fs (sys w') q = fs (sys w) q"
  using assms by (cases rule: create_file_cases) auto

lemma create_file_ok:
  assumes "create_file_with_content_and_permissions e p c m w = (True, w')"
  shows "fs (sys w') p = Some (File c (m AND 4095))"
  using assms by (cases rule: create_file_cases) auto

lemma create_file_out:
  assumes "create_file_with_content_and_permissions e p c m w = (ok, w')"
  shows "\<exists>ls. out w' = out w @ ls"
  using assms by (cases rule: create_file_cases) auto


lemma mkdir_calls_neutral:
  assumes "\<forall>c\<in>set cs. \<exists>p\<in>B. fst c = Mkdir p"
  shows "\<not> failed q cs" and "\<not> attempted q cs" and "list_all (\<lambda>x. is_mkdir (fst x)) cs"
  using assms by (auto simp add: failed_def attempted_def list_ex_iff list_all_iff)

text \<open>The directory step of a run, seen from \<open>main\<close>.\<close>

lemma directory_step:
  assumes "create_directory_if_not_exists e azure_path w0 = (ok, w1)"
  obtains D where
    "calls (sys w1) = calls (sys w0) @ D" "D \<noteq> []"
    "\<forall>c\<in>set D. \<exists>p\<in>{''/'', ''/etc'', ''/etc/azure''}. fst c = Mkdir p"
    "\<forall>q. fs (sys w1) q = fs (sys w0) q \<or>
         (q \<in> {''/etc'', ''/etc/azure''} \<and> fs (sys w0) q = None \<and> fs (sys w1) q = Some Dir)"
    "wf_fs (fs (sys w0)) \<longrightarrow> wf_fs (fs (sys w1))"
    "fs (sys w1) ''/etc/azure'' = (if ok then Some Dir else fs (sys w0) ''/etc/azure'')"
    "ok \<longleftrightarrow> fst (create_directory_if_not_exists e azure_path w0)"
proof -
  note sp = create_directory_spec [OF assms]
  have g: "grows {''/etc'', ''/etc/azure''} {''/'', ''/etc'', ''/etc/azure''} (sys w0) (sys w1)"
    using makedirs_azure_grows [of "sys w0" e] sp(1) by simp
  then obtain D where D: "calls (sys w1) = calls (sys w0) @ D"
      "\<forall>c\<in>set D. \<exists>p\<in>{''/'', ''/etc'', ''/etc/azure''}. fst c = Mkdir p"
    unfolding grows_def by blast
  have ne: "D \<noteq> []"
    using makedirs_azure_calls_nonempty [of "sys w0" e] sp(1) D(1) by auto
  show thesis
  proof (rule that [OF D(1) ne D(2)])
    show "\<forall>q. fs (sys w1) q = fs (sys w0) q \<or>
         (q \<in> {''/etc'', ''/etc/azure''} \<and> fs (sys w0) q = None \<and> fs (sys w1) q = Some Dir)"
      using g unfolding grows_def by blast
    show "wf_fs (fs (sys w0)) \<longrightarrow> wf_fs (fs (sys w1))"
      using g unfolding grows_def by blast
    show "fs (sys w1) ''/etc/azure'' = (if ok then Some Dir else fs (sys w0) ''/etc/azure'')"
      using makedirs_azure_result [of e "sys w0"] sp(1,2) by simp
    show "ok \<longleftrightarrow> fst (create_directory_if_not_exists e azure_path w0)"
      using assms by simp
  qed
qed

lemma create_directory_prints:
  "fst (create_directory_if_not_exists e d (prints ls w)) = fst (create_directory_if_not_exists e d w)"
  by (simp add: create_directory_if_not_exists_def split: prod.splits option.splits)

lemma main_run:
  assumes "os_geteuid e = None \<or> os_geteuid e = Some 0"
  obtains
    (dir_fails) D where
      "\<not> fst (create_directory_if_not_exists e azure_path w)"
      "fst (main e w) = 1"
      "new_calls w (snd (main e w)) = D" "D \<noteq> []"
      "\<forall>c\<in>set D. \<exists>p\<in>{''/'', ''/etc'', ''/etc/azure''}. fst c = Mkdir p"
      "\<forall>q. fs (sys (snd (main e w))) q = fs (sys w) q \<or>
           (q = ''/etc'' \<and> fs (sys w) q = None \<and> fs (sys (snd (main e w))) q = Some Dir)"
  | (dir_ok) D T1 T2 T3 n1 n2 n3 r1 r2 r3 where
      "fst (create_directory_if_not_exists e azure_path w)"
      "fst (main e w) = (if r1 \<and> r2 \<and> r3 then 0 else 1)"
      "new_calls w (snd (main e w)) = D @ T1 @ T2 @ T3" "D \<noteq> []"
      "\<forall>c\<in>set D. \<exists>p\<in>{''/'', ''/etc'', ''/etc/azure''}. fst c = Mkdir p"
      "map fst T1 = take n1 [Open config_path, Write config_path CONFIG_CONTENT, Chmod config_path 384]"
      "map fst T2 = take n2 [Open pre_path, Write pre_path PRE_BACKUP_CONTENT, Chmod pre_path 448]"
      "map fst T3 = take n3 [Open post_path, Write post_path POST_BACKUP_CONTENT, Chmod post_path 448]"
      "0 < n1" "0 < n2" "0 < n3"
      "failed config_path T1 \<longleftrightarrow> \<not> r1" "failed pre_path T2 \<longleftrightarrow> \<not> r2" "failed post_path T3 \<longleftrightarrow> \<not> r3"
      "attempted config_path T1" "attempted pre_path T2" "attempted post_path T3"
      "\<And>q. q \<noteq> config_path \<Longrightarrow> \<not> failed q T1 \<and> \<not> attempted q T1"
      "\<And>q. q \<noteq> pre_path \<Longrightarrow> \<not> failed q T2 \<and> \<not> attempted q T2"
      "\<And>q. q \<noteq> post_path \<Longrightarrow> \<not> failed q T3 \<and> \<not> attempted q T3"
      "\<forall>q. q \<notin> {config_path, pre_path, post_path} \<longrightarrow>
           fs (sys (snd (main e w))) q = fs (sys w) q \<or>
           (q \<in> {''/etc'', ''/etc/azure''} \<and> fs (sys w) q = None \<and> fs (sys (snd (main e w))) q = Some Dir)"
  using assms
proof (cases rule: main_cases [where w = w])
  case (dir_fails w1)
  from dir_fails(1) show ?thesis
  proof (cases rule: directory_step)
    case (1 D)
    show ?thesis
    proof (rule that(1) [of D])
      show "\<not> fst (create_directory_if_not_exists e azure_path w)"
        using 1(7) create_directory_prints [of e azure_path banner w] by simp
      show "fst (main e w) = 1" using dir_fails(2) by simp
      show "new_calls w (snd (main e w)) = D"
        using 1(1) dir_fails(2) by (simp add: new_calls_def)
      show "D \<noteq> []" by (rule 1(2))
      show "\<forall>c\<in>set D. \<exists>p\<in>{''/'', ''/etc'', ''/etc/azure''}. fst c = Mkdir p" by (rule 1(3))
      show "\<forall>q. fs (sys (snd (main e w))) q = fs (sys w) q \<or>
           (q = ''/etc'' \<and> fs (sys w) q = None \<and> fs (sys (snd (main e w))) q = Some Dir)"
        using 1(4,6) dir_fails(2) by (metis insert_iff prints_sys singletonD snd_conv)
    qed
  qed
next
  case (dir_ok w1 r1 w2 r2 w3 r3 w4)
  from dir_ok(1) show ?thesis
  proof (cases rule: directory_step)
    case (1 D)
    from dir_ok(2) obtain T1 n1 where t1:
      "calls (sys w2) = calls (sys w1) @ T1"
      "map fst T1 = take n1 [Open config_path, Write config_path CONFIG_CONTENT, Chmod config_path 384]"
      "0 < n1" "failed config_path T1 \<longleftrightarrow> \<not> r1" "attempted config_path T1"
      "\<And>q. q \<noteq> config_path \<Longrightarrow> \<not> failed q T1 \<and> \<not> attempted q T1"
      by (rule create_file_trace) blast
    from dir_ok(3) obtain T2 n2 where t2:
      "calls (sys w3) = calls (sys w2) @ T2"
      "map fst T2 = take n2 [Open pre_path, Write pre_path PRE_BACKUP_CONTENT, Chmod pre_path 448]"
      "0 < n2" "failed pre_path T2 \<longleftrightarrow> \<not> r2" "attempted pre_path T2"
      "\<And>q. q \<noteq> pre_path \<Longrightarrow> \<not> failed q T2 \<and> \<not> attempted q T2"
      by (rule create_file_trace) blast
    from dir_ok(4) obtain T3 n3 where t3:
      "calls (sys w4) = calls (sys w3) @ T3"
      "map fst T3 = take n3 [Open post_path, Write post_path POST_BACKUP_CONTENT, Chmod post_path 448]"
      "0 < n3" "failed post_path T3 \<longleftrightarrow> \<not> r3" "attempted post_path T3"
      "\<And>q. q \<noteq> post_path \<Longrightarrow> \<not> failed q T3 \<and> \<not> attempted q T3"
      by (rule create_file_trace) blast
    have fr: "fs (sys w4) q = fs (sys w1) q" if "q \<notin> {config_path, pre_path, post_path}" for q
      using that create_file_frame [OF dir_ok(2), of q] create_file_frame [OF dir_ok(3), of q]
        create_file_frame [OF dir_ok(4), of q] by simp
    show ?thesis
    proof (rule that(2) [of r1 r2 r3 D T1 T2 T3 n1 n2 n3])
      show "fst (create_directory_if_not_exists e azure_path w)"
        using 1(7) create_directory_prints [of e azure_path banner w] by simp
      show "fst (main e w) = (if r1 \<and> r2 \<and> r3 then 0 else 1)" by (rule dir_ok(5))
      show "new_calls w (snd (main e w)) = D @ T1 @ T2 @ T3"
        using 1(1) t1(1) t2(1) t3(1) dir_ok(6) by (simp add: new_calls_def)
      show "\<forall>q. q \<notin> {config_path, pre_path, post_path} \<longrightarrow>
           fs (sys (snd (main e w))) q = fs (sys w) q \<or>
           (q \<in> {''/etc'', ''/etc/azure''} \<and> fs (sys w) q = None \<and> fs (sys (snd (main e w))) q = Some Dir)"
        using fr 1(4) dir_ok(6) by (metis prints_sys)
    qed (fact 1 t1 t2 t3)+
  qed
qed

subsection \<open>Runs that succeed\<close>

lemma create_file_succeeds:
  assumes "fault e (Open p) = None" "fault e (Write p c) = None" "fault e (Chmod p m) = None"
    and "(\<exists>c m. fs (sys w) p = Some (File c m)) \<or> (fs (sys w) p = None \<and> fs (sys w) (dirname p) = Some Dir)"
  shows "fst (create_file_with_content_and_permissions e p c m w)"
    and "fs (sys (snd (create_file_with_content_and_permissions e p c m w))) = (fs (sys w))(p \<mapsto> File c (m AND 4095))"
proof -
  obtain ok w' where r: "create_file_with_content_and_permissions e p c m w = (ok, w')"
    by (cases "create_file_with_content_and_permissions e p c m w")
  from r have "ok \<and> fs (sys w') = (fs (sys w))(p \<mapsto> File c (m AND 4095))"
    by (cases rule: create_file_cases) (use assms in auto)
  then show "fst (create_file_with_content_and_permissions e p c m w)"
    and "fs (sys (snd (create_file_with_content_and_permissions e p c m w))) = (fs (sys w))(p \<mapsto> File c (m AND 4095))"
    using r by simp_all
qed

lemma create_file_True:
  assumes "create_file_with_content_and_permissions e p c m w = (True, w')"
  shows "fs (sys w') = (fs (sys w))(p \<mapsto> File c (m AND 4095))
       \<and> fault e (Open p) = None \<and> fault e (Write p c) = None \<and> fault e (Chmod p m) = None"
  using assms by (cases rule: create_file_cases) simp_all

lemma makedirs_azure_fresh:
  assumes "fault e (Mkdir ''/etc'') = None" "fault e (Mkdir ''/etc/azure'') = None"
    and "wf_fs (fs s)" and "fs s ''/etc/azure'' = None"
    and "fs s ''/etc'' = None \<or> fs s ''/etc'' = Some Dir"
  shows "fst (os_makedirs e ''/etc/azure'' s) = None
       \<and> fs (snd (os_makedirs e ''/etc/azure'' s)) = (fs s)(''/etc'' \<mapsto> Dir, ''/etc/azure'' \<mapsto> Dir)"
proof -
  have root: "fs s ''/'' = Some Dir"
    using assms(3) by (simp add: wf_fs_def)
  show ?thesis
  proof (cases "fs s ''/etc''")
    case None
    obtain r1 s1 where m: "mkdir_exist_ok e ''/etc'' s = (r1, s1)"
      by (cases "mkdir_exist_ok e ''/etc'' s")
    have r1: "r1 = None"
      using mkdir_exist_ok_result [of e "''/etc''" s] m None root assms(1) by (simp add: dirname_azure)
    have f1: "fs s1 = (fs s)(''/etc'' \<mapsto> Dir)"
      using mkdir_exist_ok_fs [of e "''/etc''" s] m None root assms(1) by (simp add: dirname_azure)
    have e1: "os_makedirs e ''/etc'' s = (None, s1)"
      using m r1 root by (simp add: makedirs_etc path_exists_def)
    have top: "os_makedirs e ''/etc/azure'' s = mkdir_exist_ok e ''/etc/azure'' s1"
      using None e1 by (simp add: makedirs_azure path_exists_def)
    have "fst (mkdir_exist_ok e ''/etc/azure'' s1) = None"
      using mkdir_exist_ok_result [of e "''/etc/azure''" s1] f1 assms(2,4)
      by (simp add: dirname_azure)
    moreover have "fs (snd (mkdir_exist_ok e ''/etc/azure'' s1)) = (fs s1)(''/etc/azure'' \<mapsto> Dir)"
      using mkdir_exist_ok_fs [of e "''/etc/azure''" s1] f1 assms(2,4)
      by (simp add: dirname_azure)
    ultimately show ?thesis
      using top f1 by simp
  next
    case (Some n)
    then have d: "fs s ''/etc'' = Some Dir"
      using assms(5) by simp
    have same: "(fs s)(''/etc'' \<mapsto> Dir) = fs s"
      using d by (rule map_upd_triv)
    have top: "os_makedirs e ''/etc/azure'' s = mkdir_exist_ok e ''/etc/azure'' s"
      using d by (simp add: makedirs_azure path_exists_def)
    have "fst (mkdir_exist_ok e ''/etc/azure'' s) = None"
      using mkdir_exist_ok_result [of e "''/etc/azure''" s] d assms(2,4)
      by (simp add: dirname_azure)
    moreover have "fs (snd (mkdir_exist_ok e ''/etc/azure'' s)) = (fs s)(''/etc/azure'' \<mapsto> Dir)"
      using mkdir_exist_ok_fs [of e "''/etc/azure''" s] d assms(2,4)
      by (simp add: dirname_azure)
    ultimately show ?thesis
      using top same by simp
  qed
qed

lemma makedirs_azure_present:
  assumes "fs s ''/etc/azure'' = Some Dir" and "fs s ''/etc'' = Some Dir"
  shows "fst (os_makedirs e ''/etc/azure'' s) = None"
    and "fs (snd (os_makedirs e ''/etc/azure'' s)) = fs s"
  using assms mkdir_exist_ok_result [of e "''/etc/azure''" s] mkdir_exist_ok_fs [of e "''/etc/azure''" s]
  by (simp_all add: makedirs_azure path_exists_def)

lemma wf_fs_child:
  assumes "wf_fs f" and "f (dirname p) = None" and "p \<noteq> ''/''"
  shows "f p = None"
  using assms unfolding wf_fs_def by (metis option.distinct(1))

text \<open>Evaluating a run on a concrete input.\<close>

lemmas run_simps =
  main_def Let_def joins modes create_directory_if_not_exists_def makedirs_azure makedirs_etc
  mkdir_exist_ok_def os_mkdir_def logged_def raise_of_def parent_error_def dirname_azure
  path_exists_def path_isdir_def is_FileExistsError_def
  create_file_with_content_and_permissions_def os_open_w_def os_write_def os_chmod_def
  file_error_def print_def prints_def new_calls_def attempted_def failed_def

lemma wf_bare: "wf_fs (fs (sys bare_world))"
  by (simp add: wf_fs_def bare_world_def)

lemma parse_config:
  "parse_json CONFIG_CONTENT = Some (JObject
     [(''pluginName'', JString ''ScriptRunner''),
      (''preScriptLocation'', JString ''/etc/azure/pre_backup.sh''),
      (''postScriptLocation'', JString ''/etc/azure/post_backup.sh''),
      (''preScriptParams'', JArray [JString [], JString []]),
      (''postScriptParams'', JArray [JString [], JString []]),
      (''preScriptNoOfRetries'', JInt 0),
      (''postScriptNoOfRetries'', JInt 0),
      (''timeoutInSeconds'', JInt 30),
      (''continueBackupOnFailure'', JBool True),
      (''fsFreezeEnabled'', JBool True)])"
  by code_simp

subsection \<open>The privilege check\<close>

lemma main_proceeds_out:
  assumes "os_geteuid e = None \<or> os_geteuid e = Some 0"
  shows "\<exists>ls. out (snd (main e w)) = out w @ banner @ ls"
  using assms
proof (cases rule: main_cases [where w = w])
  case (dir_fails w1)
  then show ?thesis
    using create_directory_spec(3) [OF dir_fails(1)] by auto
next
  case (dir_ok w1 r1 w2 r2 w3 r3 w4)
  obtain l1 where o1: "out w1 = out w @ banner @ l1"
    using create_directory_spec(3) [OF dir_ok(1)] by auto
  obtain l2 where o2: "out w2 = out w1 @ l2"
    using create_file_out [OF dir_ok(2)] by blast
  obtain l3 where o3: "out w3 = out w2 @ l3"
    using create_file_out [OF dir_ok(3)] by blast
  obtain l4 where o4: "out w4 = out w3 @ l4"
    using create_file_out [OF dir_ok(4)] by blast
  obtain l5 where o5: "out (snd (main e w)) = out w4 @ l5"
    using dir_ok(7) by blast
  have "out (snd (main e w)) = out w @ banner @ (l1 @ l2 @ l3 @ l4 @ l5)"
    using o1 o2 o3 o4 o5 by simp
  then show ?thesis by (rule exI)
qed

lemma geteuid_irrelevant:
  "os_mkdir (e\<lparr>os_geteuid := x\<rparr>) p s = os_mkdir e p s"
  "os_open_w (e\<lparr>os_geteuid := x\<rparr>) p s = os_open_w e p s"
  "os_write (e\<lparr>os_geteuid := x\<rparr>) p c s = os_write e p c s"
  "os_chmod (e\<lparr>os_geteuid := x\<rparr>) p m s = os_chmod e p m s"
  by (simp_all add: os_mkdir_def os_open_w_def os_write_def os_chmod_def Let_def
      cong: if_cong option.case_cong node.case_cong)

lemma geteuid_irrelevant_mkdir:
  "mkdir_exist_ok (e\<lparr>os_geteuid := x\<rparr>) p s = mkdir_exist_ok e p s"
  by (simp add: mkdir_exist_ok_def geteuid_irrelevant)

lemma geteuid_irrelevant_makedirs:
  "os_makedirs (e\<lparr>os_geteuid := x\<rparr>) ''/etc/azure'' s = os_makedirs e ''/etc/azure'' s"
proof -
  have "os_makedirs (e\<lparr>os_geteuid := x\<rparr>) ''/etc'' t = os_makedirs e ''/etc'' t" for t
    by (simp only: makedirs_etc geteuid_irrelevant_mkdir)
  then show ?thesis
    by (simp only: makedirs_azure geteuid_irrelevant_mkdir)
qed

lemma geteuid_irrelevant_steps:
  "create_directory_if_not_exists (e\<lparr>os_geteuid := x\<rparr>) ''/etc/azure'' w
     = create_directory_if_not_exists e ''/etc/azure'' w"
  "create_file_with_content_and_permissions (e\<lparr>os_geteuid := x\<rparr>) p c m w
     = create_file_with_content_and_permissions e p c m w"
  by (simp_all only: create_directory_if_not_exists_def create_file_with_content_and_permissions_def
      geteuid_irrelevant_makedirs geteuid_irrelevant)

subsection \<open>After a successful run\<close>

lemma wf_fs_parent:
  assumes "wf_fs f" and "f p \<noteq> None" and "p \<noteq> ''/''"
  shows "f (dirname p) = Some Dir"
  using assms unfolding wf_fs_def by blast

lemma successful_run:
  assumes wf: "wf_fs (fs (sys w))" and ok: "fst (main e w) = 0"
  obtains f1 where
    "os_geteuid e = None \<or> os_geteuid e = Some 0"
    "f1 ''/etc'' = Some Dir" "f1 ''/etc/azure'' = Some Dir"
    "fs (sys (snd (main e w))) =
       f1(config_path \<mapsto> File CONFIG_CONTENT 384,
          pre_path \<mapsto> File PRE_BACKUP_CONTENT 448,
          post_path \<mapsto> File POST_BACKUP_CONTENT 448)"
    "fault e (Open config_path) = None" "fault e (Write config_path CONFIG_CONTENT) = None"
    "fault e (Chmod config_path 384) = None"
    "fault e (Open pre_path) = None" "fault e (Write pre_path PRE_BACKUP_CONTENT) = None"
    "fault e (Chmod pre_path 448) = None"
    "fault e (Open post_path) = None" "fault e (Write post_path POST_BACKUP_CONTENT) = None"
    "fault e (Chmod post_path 448) = None"
proof -
  have p: "os_geteuid e = None \<or> os_geteuid e = Some 0"
  proof (rule ccontr)
    assume "\<not> (os_geteuid e = None \<or> os_geteuid e = Some 0)"
    then obtain uid where "os_geteuid e = Some uid" "uid \<noteq> 0"
      by (cases "os_geteuid e") auto
    then show False
      using ok by (simp add: main_denied)
  qed
  from p show thesis
  proof (cases rule: main_cases [where w = w])
    case (dir_fails w1)
    then show ?thesis using ok by simp
  next
    case (dir_ok w1 r1 w2 r2 w3 r3 w4)
    have r: "r1" "r2" "r3"
      using ok dir_ok(5) by (simp_all split: if_splits)
    from dir_ok(1) obtain D where
      "fs (sys w1) ''/etc/azure'' = (if True then Some Dir else fs (sys (prints banner w)) ''/etc/azure'')"
      and "wf_fs (fs (sys (prints banner w))) \<longrightarrow> wf_fs (fs (sys w1))"
      by (rule directory_step)
    then have d: "fs (sys w1) ''/etc/azure'' = Some Dir" "wf_fs (fs (sys w1))"
      using wf by simp_all
    have etc: "fs (sys w1) ''/etc'' = Some Dir"
      using wf_fs_parent [OF d(2), of "''/etc/azure''"] d(1) by (simp add: dirname_azure)
    note c1 = create_file_True [OF dir_ok(2) [unfolded r(1) [THEN eqTrueI]]]
    note c2 = create_file_True [OF dir_ok(3) [unfolded r(2) [THEN eqTrueI]]]
    note c3 = create_file_True [OF dir_ok(4) [unfolded r(3) [THEN eqTrueI]]]
    show ?thesis
    proof (rule that [of "fs (sys w1)"])
      show "fs (sys (snd (main e w))) =
        (fs (sys w1))(config_path \<mapsto> File CONFIG_CONTENT 384,
           pre_path \<mapsto> File PRE_BACKUP_CONTENT 448,
           post_path \<mapsto> File POST_BACKUP_CONTENT 448)"
        using dir_ok(6) c1 c2 c3 by simp
    qed (use p d etc c1 c2 c3 in simp_all)
  qed
qed

subsection \<open>The exit of the process\<close>

lemma run_script_status:
  "fst (run_script e w) = (if fault e Flush = None then fst (main e w) else 120)"
  by (cases "main e w")
     (auto simp add: run_script_def os_flush_stdout_def logged_def raise_of_def split: option.splits)

lemma run_script_fs: "fs (sys (snd (run_script e w))) = fs (sys (snd (main e w)))"
  by (cases "main e w")
     (auto simp add: run_script_def os_flush_stdout_def logged_def raise_of_def split: option.splits)

lemma run_script_calls:
  "calls (sys (snd (run_script e w))) =
     calls (sys (snd (main e w))) @ [(Flush, raise_of (fault e Flush) None)]"
  by (cases "main e w")
     (auto simp add: run_script_def os_flush_stdout_def logged_def raise_of_def split: option.splits)

lemma main_calls_extend: "\<exists>T. calls (sys (snd (main e w))) = calls (sys w) @ T"
proof (cases "os_geteuid e = None \<or> os_geteuid e = Some 0")
  case False
  then obtain uid where "os_geteuid e = Some uid" "uid \<noteq> 0"
    by (cases "os_geteuid e") auto
  then show ?thesis
    by (simp add: main_denied)
next
  case True
  then show ?thesis
  proof (cases rule: main_cases [where w = w])
    case (dir_fails w1)
    from dir_fails(1) have "\<exists>T. calls (sys w1) = calls (sys w) @ T"
      by (cases rule: directory_step) simp
    then show ?thesis
      using dir_fails(2) by simp
  next
    case (dir_ok w1 r1 w2 r2 w3 r3 w4)
    from dir_ok(1) obtain D where d: "calls (sys w1) = calls (sys w) @ D"
      by (cases rule: directory_step) simp
    from dir_ok(2) obtain T1 where t1: "calls (sys w2) = calls (sys w1) @ T1"
      by (rule create_file_trace)
    from dir_ok(3) obtain T2 where t2: "calls (sys w3) = calls (sys w2) @ T2"
      by (rule create_file_trace)
    from dir_ok(4) obtain T3 where t3: "calls (sys w4) = calls (sys w3) @ T3"
      by (rule create_file_trace)
    have "calls (sys (snd (main e w))) = calls (sys w) @ (D @ T1 @ T2 @ T3)"
      using d t1 t2 t3 dir_ok(6) by simp
    then show ?thesis
      by (rule exI)
  qed
qed

lemma run_script_new_calls:
  "new_calls w (snd (run_script e w)) =
     new_calls w (snd (main e w)) @ [(Flush, raise_of (fault e Flush) None)]"
proof -
  obtain T where "calls (sys (snd (main e w))) = calls (sys w) @ T"
    using main_calls_extend by blast
  then show ?thesis
    by (simp add: new_calls_def run_script_calls)
qed

lemma flush_neutral:
  "\<not> attempted p [(Flush, r)]"
  "p \<noteq> [] \<Longrightarrow> \<not> failed p [(Flush, r)]"
  by (auto simp add: attempted_def failed_def)

lemma second_run_main:
  assumes p: "os_geteuid e = None \<or> os_geteuid e = Some 0"
    and nofault: "fault e (Open config_path) = None" "fault e (Write config_path CONFIG_CONTENT) = None"
      "fault e (Chmod config_path 384) = None"
      "fault e (Open pre_path) = None" "fault e (Write pre_path PRE_BACKUP_CONTENT) = None"
      "fault e (Chmod pre_path 448) = None"
      "fault e (Open post_path) = None" "fault e (Write post_path POST_BACKUP_CONTENT) = None"
      "fault e (Chmod post_path 448) = None"
    and F: "fs (sys w) ''/etc'' = Some Dir" "fs (sys w) ''/etc/azure'' = Some Dir"
      "fs (sys w) config_path = Some (File CONFIG_CONTENT 384)"
      "fs (sys w) pre_path = Some (File PRE_BACKUP_CONTENT 448)"
      "fs (sys w) post_path = Some (File POST_BACKUP_CONTENT 448)"
  shows "fst (main e w) = 0 \<and> fs (sys (snd (main e w))) = fs (sys w)"
  using p
proof (cases rule: main_cases [where w = w])
  case (dir_fails w1)
  have "fst (os_makedirs e ''/etc/azure'' (sys w)) = None"
    using makedirs_azure_present(1) [of "sys w" e] F(1,2) by simp
  then show ?thesis
    using create_directory_spec(2) [OF dir_fails(1)] by simp
next
  case (dir_ok w1 r1 w2 r2 w3 r3 w4)
  have s1: "fs (sys w1) = fs (sys w)"
    using makedirs_azure_present(2) [of "sys w" e] F(1,2)
      create_directory_spec(1) [OF dir_ok(1)] by simp
  have c1: "r1" "fs (sys w2) = fs (sys w)"
    using create_file_succeeds [of e config_path CONFIG_CONTENT 384 w1] nofault(1,2,3) dir_ok(2) s1 F(3)
    by (simp_all add: map_upd_triv)
  have c2: "r2" "fs (sys w3) = fs (sys w)"
    using create_file_succeeds [of e pre_path PRE_BACKUP_CONTENT 448 w2] nofault(4,5,6) dir_ok(3) c1(2) F(4)
    by (simp_all add: map_upd_triv)
  have c3: "r3" "fs (sys w4) = fs (sys w)"
    using create_file_succeeds [of e post_path POST_BACKUP_CONTENT 448 w3] nofault(7,8,9) dir_ok(4) c2(2) F(5)
    by (simp_all add: map_upd_triv)
  show ?thesis
    using dir_ok(5,6) c1 c2 c3 by simp
qed

subsection \<open>What a run leaves alone\<close>

text \<open>
  In this file system, where every path names its own node, \<^verbatim>\<open>main\<close> changes nothing outside
  \<^verbatim>\<open>/etc\<close>, \<^verbatim>\<open>/etc/azure\<close> and the three artifact paths. The fact says nothing of a file
  system where one of these paths is a link.
\<close>

lemma main_frame:
  "(\<forall>q. q \<notin> {''/etc'', ''/etc/azure'', config_path, pre_path, post_path} \<longrightarrow>
        fs (sys (snd (main e w))) q = fs (sys w) q)
   \<and> (\<forall>q \<in> {''/etc'', ''/etc/azure''}.
        fs (sys (snd (main e w))) q = fs (sys w) q
        \<or> (fs (sys w) q = None \<and> fs (sys (snd (main e w))) q = Some Dir))"
proof (cases "os_geteuid e = None \<or> os_geteuid e = Some 0")
  case False
  then obtain uid where "os_geteuid e = Some uid" "uid \<noteq> 0"
    by (cases "os_geteuid e") auto
  then show ?thesis
    by (simp add: main_denied)
next
  case True
  then show ?thesis
  proof (cases rule: main_run [where w = w])
    case (dir_fails D)
    have a: "fs (sys (snd (main e w))) q = fs (sys w) q \<or>
           (q = ''/etc'' \<and> fs (sys w) q = None \<and> fs (sys (snd (main e w))) q = Some Dir)" for q
      using dir_fails(6) by blast
    have "fs (sys (snd (main e w))) q = fs (sys w) q" if "q \<noteq> ''/etc''" for q
      using a [of q] that by blast
    then show ?thesis
      using a [of "''/etc''"] by simp
  next
    case (dir_ok D T1 T2 T3 n1 n2 n3 r1 r2 r3)
    have a: "fs (sys (snd (main e w))) q = fs (sys w) q \<or>
           (q \<in> {''/etc'', ''/etc/azure''} \<and> fs (sys w) q = None \<and> fs (sys (snd (main e w))) q = Some Dir)"
      if "q \<notin> {config_path, pre_path, post_path}" for q
      using dir_ok(21) that by blast
    have b: "''/etc'' \<notin> {config_path, pre_path, post_path}"
      and c: "''/etc/azure'' \<notin> {config_path, pre_path, post_path}"
      by simp_all
    have "fs (sys (snd (main e w))) q = fs (sys w) q"
      if "q \<notin> {''/etc'', ''/etc/azure'', config_path, pre_path, post_path}" for q
    proof -
      from that have "q \<notin> {config_path, pre_path, post_path}" and "q \<notin> {''/etc'', ''/etc/azure''}"
        by blast+
      then show ?thesis using a [of q] by blast
    qed
    then show ?thesis
      using a [OF b] a [OF c] by simp
  qed
qed

section \<open>The claims\<close>

text \<open>
  Claim C1, amended. In a run as root on a well-formed file system where \<^verbatim>\<open>/etc/azure\<close>
  does not exist, where \<^verbatim>\<open>/etc\<close> is missing or a directory, and where the environment makes
  no system call fail, \<^verbatim>\<open>main\<close> returns, the exit status of the process is 0, and the file
  system afterwards is the one before plus the directories \<^verbatim>\<open>/etc\<close> and \<^verbatim>\<open>/etc/azure\<close> and
  the three files, each holding its literal, with permission bits \<^verbatim>\<open>0o600\<close> (384) for the
  config file and \<^verbatim>\<open>0o700\<close> (448) for the two scripts.
\<close>

theorem C1_fresh_install:
  assumes "os_geteuid e = Some 0"
    and "fault e = Map.empty"
    and "wf_fs (fs (sys w))"
    and "fs (sys w) ''/etc/azure'' = None"
    and "fs (sys w) ''/etc'' = None \<or> fs (sys w) ''/etc'' = Some Dir"
  shows "fst (main e w) = 0
       \<and> fst (run_script e w) = 0
       \<and> fs (sys (snd (main e w))) =
           (fs (sys w))
             (''/etc'' \<mapsto> Dir,
              ''/etc/azure'' \<mapsto> Dir,
              ''/etc/azure/VMSnapshotScriptPluginConfig.json'' \<mapsto> File CONFIG_CONTENT 384,
              ''/etc/azure/pre_backup.sh'' \<mapsto> File PRE_BACKUP_CONTENT 448,
              ''/etc/azure/post_backup.sh'' \<mapsto> File POST_BACKUP_CONTENT 448)"
proof -
  have "os_geteuid e = None \<or> os_geteuid e = Some 0"
    using assms(1) by simp
  then show ?thesis
  proof (cases rule: main_cases [where w = w])
    case (dir_fails w1)
    have "fst (os_makedirs e ''/etc/azure'' (sys w)) = None"
      using makedirs_azure_fresh [of e "sys w"] assms by simp
    then show ?thesis
      using create_directory_spec(2) [OF dir_fails(1)] by simp
  next
    case (dir_ok w1 r1 w2 r2 w3 r3 w4)
    have nofault: "fault e c = None" for c
      using assms(2) by simp
    have f1: "fs (sys w1) = (fs (sys w))(''/etc'' \<mapsto> Dir, ''/etc/azure'' \<mapsto> Dir)"
      using makedirs_azure_fresh [of e "sys w"] assms create_directory_spec(1) [OF dir_ok(1)]
      by simp
    have absent: "fs (sys w) config_path = None" "fs (sys w) pre_path = None" "fs (sys w) post_path = None"
      using wf_fs_child [OF assms(3)] assms(4) by (simp_all add: dirname_azure)
    have c1: "r1" "fs (sys w2) = (fs (sys w1))(config_path \<mapsto> File CONFIG_CONTENT 384)"
      using create_file_succeeds [of e config_path CONFIG_CONTENT 384 w1] nofault dir_ok(2) f1 absent
      by (simp_all add: dirname_azure)
    have c2: "r2" "fs (sys w3) = (fs (sys w2))(pre_path \<mapsto> File PRE_BACKUP_CONTENT 448)"
      using create_file_succeeds [of e pre_path PRE_BACKUP_CONTENT 448 w2] nofault dir_ok(3) c1(2) f1 absent
      by (simp_all add: dirname_azure)
    have c3: "r3" "fs (sys w4) = (fs (sys w3))(post_path \<mapsto> File POST_BACKUP_CONTENT 448)"
      using create_file_succeeds [of e post_path POST_BACKUP_CONTENT 448 w3] nofault dir_ok(4) c2(2) c1(2) f1 absent
      by (simp_all add: dirname_azure)
    show ?thesis
      using dir_ok(5,6) c1 c2 c3 f1 nofault by (simp add: run_script_status)
  qed
qed

text \<open>
  As the claim is stated, for every run as root where \<^verbatim>\<open>/etc/azure\<close> does not exist, it fails:
  on a read-only file system \<^verbatim>\<open>mkdir\<close> raises, the run exits with status 1 and neither the
  directory nor any of the three files exists afterwards.
\<close>

theorem C1_counterexample:
  "os_geteuid rofs_env = Some 0
   \<and> wf_fs (fs (sys bare_world))
   \<and> fs (sys bare_world) ''/etc/azure'' = None
   \<and> fst (main rofs_env bare_world) = 1
   \<and> fst (run_script rofs_env bare_world) = 1
   \<and> fs (sys (snd (main rofs_env bare_world))) ''/etc/azure'' = None
   \<and> fs (sys (snd (main rofs_env bare_world))) ''/etc/azure/VMSnapshotScriptPluginConfig.json'' = None
   \<and> fs (sys (snd (main rofs_env bare_world))) ''/etc/azure/pre_backup.sh'' = None
   \<and> fs (sys (snd (main rofs_env bare_world))) ''/etc/azure/post_backup.sh'' = None"
proof -
  have "fs (sys (snd (main rofs_env bare_world))) = [''/'' \<mapsto> Dir, ''/etc'' \<mapsto> Dir]"
    and "fst (main rofs_env bare_world) = 1"
    by (simp_all add: run_simps rofs_env_def bare_world_def)
  then show ?thesis
    using wf_bare by (simp add: run_script_status rofs_env_def bare_world_def)
qed

text \<open>
  The amended claim at a concrete input: root, no fault, a file system holding only the root
  directory.
\<close>

theorem C1_fresh_install_witness:
  "fst (main root_env bare_world) = 0
   \<and> fs (sys (snd (main root_env bare_world))) =
       [''/'' \<mapsto> Dir,
        ''/etc'' \<mapsto> Dir,
        ''/etc/azure'' \<mapsto> Dir,
        ''/etc/azure/VMSnapshotScriptPluginConfig.json'' \<mapsto> File CONFIG_CONTENT 384,
        ''/etc/azure/pre_backup.sh'' \<mapsto> File PRE_BACKUP_CONTENT 448,
        ''/etc/azure/post_backup.sh'' \<mapsto> File POST_BACKUP_CONTENT 448]"
proof -
  have h1: "os_geteuid root_env = Some 0" and h2: "fault root_env = Map.empty"
    by (simp_all add: root_env_def)
  have h4: "fs (sys bare_world) ''/etc/azure'' = None"
    and h5: "fs (sys bare_world) ''/etc'' = None \<or> fs (sys bare_world) ''/etc'' = Some Dir"
    by (simp_all add: bare_world_def)
  show ?thesis
    using C1_fresh_install [OF h1 h2 wf_bare h4 h5] by (simp add: bare_world_def)
qed

text \<open>
  Claim C2, amended. When the effective user id exists and is not 0, the run changes nothing
  in the file system: \<^verbatim>\<open>main\<close> calls \<^verbatim>\<open>sys.exit(1)\<close> with the state of the operating system
  untouched, and the only system call of the process is the flush of standard output at
  exit. The exit status is 1 provided that flush succeeds; it is 120 when it fails.
\<close>

theorem C2_not_elevated:
  assumes "os_geteuid e = Some uid" and "uid \<noteq> 0"
  shows "fst (run_script e w) = (if fault e Flush = None then 1 else 120)
       \<and> fs (sys (snd (run_script e w))) = fs (sys w)
       \<and> map fst (new_calls w (snd (run_script e w))) = [Flush]
       \<and> fst (main e w) = 1
       \<and> sys (snd (main e w)) = sys w"
proof -
  have m: "main e w = (1, prints privilege_error w)"
    using assms by (simp add: main_denied privilege_error_def)
  then have "new_calls w (snd (main e w)) = []"
    by (simp add: new_calls_def)
  then show ?thesis
    using m by (simp add: run_script_status run_script_fs run_script_new_calls)
qed

text \<open>
  As the claim is stated, exit status 1 for every run that is not elevated, it fails: for an
  ordinary user whose standard output goes to a full device the exit status is 120.
\<close>

theorem C2_counterexample:
  "os_geteuid full_stdout_user_env = Some 1000
   \<and> fst (run_script full_stdout_user_env bare_world) = 120
   \<and> fst (run_script full_stdout_user_env bare_world) \<noteq> 1"
proof -
  have u: "os_geteuid full_stdout_user_env = Some 1000" and f: "fault full_stdout_user_env Flush = Some ENOSPC"
    by (simp_all add: full_stdout_user_env_def)
  have "fst (run_script full_stdout_user_env bare_world) = 120"
    using f by (simp add: run_script_status)
  then show ?thesis
    using u by simp
qed

text \<open>
  The amended claim for an ordinary user whose output can be flushed.
\<close>

theorem C2_not_elevated_witness:
  "fst (run_script user_env bare_world) = 1
   \<and> fs (sys (snd (run_script user_env bare_world))) = fs (sys bare_world)
   \<and> map fst (new_calls bare_world (snd (run_script user_env bare_world))) = [Flush]"
proof -
  have u: "os_geteuid user_env = Some 1000" and f: "fault user_env Flush = None"
    by (simp_all add: user_env_def)
  have n: "(1000::nat) \<noteq> 0"
    by simp
  show ?thesis
    using C2_not_elevated [OF u n, of bare_world] f by simp
qed




text \<open>
  Claim C4, amended. In a run as root whose directory step failed, \<^verbatim>\<open>main\<close> calls
  \<^verbatim>\<open>sys.exit(1)\<close> after system calls that are all \<^verbatim>\<open>mkdir\<close>, and the process adds only the
  flush of standard output: no artifact write is attempted. Every path is as it was,
  except that \<^verbatim>\<open>/etc\<close>, when it was missing, may have been created as a directory by the
  step that failed. The exit status is 1 provided the flush succeeds; it is 120 when it
  fails.
\<close>

theorem C4_directory_failure:
  assumes "os_geteuid e = Some 0"
    and "\<not> fst (create_directory_if_not_exists e ''/etc/azure'' w)"
  shows "fst (run_script e w) = (if fault e Flush = None then 1 else 120)
       \<and> fst (main e w) = 1
       \<and> list_all (\<lambda>c. is_mkdir (fst c)) (new_calls w (snd (main e w)))
       \<and> new_calls w (snd (run_script e w))
           = new_calls w (snd (main e w)) @ [(Flush, raise_of (fault e Flush) None)]
       \<and> \<not> attempted config_path (new_calls w (snd (run_script e w)))
       \<and> \<not> attempted pre_path (new_calls w (snd (run_script e w)))
       \<and> \<not> attempted post_path (new_calls w (snd (run_script e w)))
       \<and> (\<forall>q. fs (sys (snd (run_script e w))) q = fs (sys w) q
              \<or> (q = ''/etc'' \<and> fs (sys w) q = None
                  \<and> fs (sys (snd (run_script e w))) q = Some Dir))"
proof -
  have "os_geteuid e = None \<or> os_geteuid e = Some 0"
    using assms(1) by simp
  then show ?thesis
  proof (cases rule: main_run [where w = w])
    case (dir_fails D)
    note neutral = mkdir_calls_neutral [OF dir_fails(5)]
    have n: "new_calls w (snd (run_script e w)) = D @ [(Flush, raise_of (fault e Flush) None)]"
      using dir_fails(3) by (simp add: run_script_new_calls)
    have A: "\<not> attempted p (new_calls w (snd (run_script e w)))" for p
      using neutral(2) [of p] by (simp add: n attempted_append flush_neutral(1))
    show ?thesis
      using dir_fails(2,3,6) neutral(3) n A
      by (simp add: run_script_status run_script_fs)
  next
    case (dir_ok D T1 T2 T3 n1 n2 n3 r1 r2 r3)
    then show ?thesis using assms(2) by simp
  qed
qed

text \<open>
  As the claim is stated, exit status 1 whenever the directory cannot be created, it fails:
  on a read-only file system with standard output on a full device the exit status is 120.
\<close>

theorem C4_counterexample:
  "os_geteuid full_stdout_rofs_env = Some 0
   \<and> \<not> fst (create_directory_if_not_exists full_stdout_rofs_env ''/etc/azure'' bare_world)
   \<and> fst (run_script full_stdout_rofs_env bare_world) = 120
   \<and> fst (run_script full_stdout_rofs_env bare_world) \<noteq> 1"
  by (simp add: run_script_status run_simps full_stdout_rofs_env_def bare_world_def)

text \<open>
  The amended claim on a read-only file system whose output can be flushed.
\<close>

theorem C4_directory_failure_witness:
  "fst (run_script rofs_env bare_world) = 1
   \<and> list_all (\<lambda>c. is_mkdir (fst c)) (new_calls bare_world (snd (main rofs_env bare_world)))
   \<and> \<not> attempted config_path (new_calls bare_world (snd (run_script rofs_env bare_world)))
   \<and> fs (sys (snd (run_script rofs_env bare_world))) ''/etc/azure/pre_backup.sh''
       = fs (sys bare_world) ''/etc/azure/pre_backup.sh''"
proof -
  have h1: "os_geteuid rofs_env = Some 0" and f: "fault rofs_env Flush = None"
    by (simp_all add: rofs_env_def)
  have h2: "\<not> fst (create_directory_if_not_exists rofs_env ''/etc/azure'' bare_world)"
    by (simp add: run_simps rofs_env_def bare_world_def)
  note r = C4_directory_failure [OF h1 h2]
  from r have "\<forall>q. fs (sys (snd (run_script rofs_env bare_world))) q = fs (sys bare_world) q
              \<or> (q = ''/etc'' \<and> fs (sys bare_world) q = None
                  \<and> fs (sys (snd (run_script rofs_env bare_world))) q = Some Dir)"
    by (elim conjE)
  from this [THEN spec, of pre_path]
  have a: "fs (sys (snd (run_script rofs_env bare_world))) pre_path = fs (sys bare_world) pre_path"
    by simp
  from r have "fst (run_script rofs_env bare_world) = (if fault rofs_env Flush = None then 1 else 120)"
    by (elim conjE)
  then have b: "fst (run_script rofs_env bare_world) = 1"
    using f by simp
  from r have c: "list_all (\<lambda>c. is_mkdir (fst c)) (new_calls bare_world (snd (main rofs_env bare_world)))"
    by (elim conjE)
  from r have d: "\<not> attempted config_path (new_calls bare_world (snd (run_script rofs_env bare_world)))"
    by (elim conjE)
  show ?thesis
    using a b c d by (intro conjI)
qed

text \<open>
  Claim C5. The literal written to the config file parses as a JSON text, and the value is
  an object with exactly the ten fields of the schema: three strings, two sequences of two
  strings, three integers and two booleans.
\<close>

theorem C5_config_is_json:
  "\<exists>v. parse_json CONFIG_CONTENT = Some v \<and> conforms v config_schema"
proof -
  have "conforms (JObject
     [(''pluginName'', JString ''ScriptRunner''),
      (''preScriptLocation'', JString ''/etc/azure/pre_backup.sh''),
      (''postScriptLocation'', JString ''/etc/azure/post_backup.sh''),
      (''preScriptParams'', JArray [JString [], JString []]),
      (''postScriptParams'', JArray [JString [], JString []]),
      (''preScriptNoOfRetries'', JInt 0),
      (''postScriptNoOfRetries'', JInt 0),
      (''timeoutInSeconds'', JInt 30),
      (''continueBackupOnFailure'', JBool True),
      (''fsFreezeEnabled'', JBool True)]) config_schema"
    by code_simp
  then show ?thesis
    using parse_config by blast
qed



text \<open>
  Claim C7, amended. On a well-formed file system, let a first run exit with status 0, in
  any environment. A second run from the state it left, by a process that passes the
  privilege check and in an environment that makes no system call fail, also exits with
  status 0 and leaves the file system exactly as the first run left it: \<^verbatim>\<open>/etc/azure\<close>
  is a directory and the three files hold their literals with permission bits \<^verbatim>\<open>0o600\<close>,
  \<^verbatim>\<open>0o700\<close> and \<^verbatim>\<open>0o700\<close>.
\<close>

theorem C7_second_run:
  assumes "wf_fs (fs (sys w))" and "fst (run_script e1 w) = 0"
    and "os_geteuid e2 = None \<or> os_geteuid e2 = Some 0" and "fault e2 = Map.empty"
  shows "fst (run_script e2 (snd (run_script e1 w))) = 0
       \<and> fs (sys (snd (run_script e2 (snd (run_script e1 w))))) = fs (sys (snd (run_script e1 w)))
       \<and> fs (sys (snd (run_script e1 w))) ''/etc/azure'' = Some Dir
       \<and> fs (sys (snd (run_script e1 w))) ''/etc/azure/VMSnapshotScriptPluginConfig.json''
           = Some (File CONFIG_CONTENT 384)
       \<and> fs (sys (snd (run_script e1 w))) ''/etc/azure/pre_backup.sh''
           = Some (File PRE_BACKUP_CONTENT 448)
       \<and> fs (sys (snd (run_script e1 w))) ''/etc/azure/post_backup.sh''
           = Some (File POST_BACKUP_CONTENT 448)"
proof -
  have ok: "fst (main e1 w) = 0"
    using assms(2) by (simp add: run_script_status split: if_splits)
  from assms(1) ok show ?thesis
  proof (cases rule: successful_run)
    case (1 f1)
    define W where "W = snd (run_script e1 w)"
    have fsW: "fs (sys W) = fs (sys (snd (main e1 w)))"
      by (simp add: W_def run_script_fs)
    have F: "fs (sys W) ''/etc'' = Some Dir" "fs (sys W) ''/etc/azure'' = Some Dir"
      "fs (sys W) config_path = Some (File CONFIG_CONTENT 384)"
      "fs (sys W) pre_path = Some (File PRE_BACKUP_CONTENT 448)"
      "fs (sys W) post_path = Some (File POST_BACKUP_CONTENT 448)"
      using 1(2,3,4) fsW by simp_all
    have nf: "fault e2 c = None" for c
      using assms(4) by simp
    have "fst (main e2 W) = 0 \<and> fs (sys (snd (main e2 W))) = fs (sys W)"
      by (rule second_run_main [OF assms(3) nf nf nf nf nf nf nf nf nf F])
    then have "fst (run_script e2 W) = 0 \<and> fs (sys (snd (run_script e2 W))) = fs (sys W)"
      using nf by (simp add: run_script_status run_script_fs)
    then show ?thesis
      using F by (simp add: W_def)
  qed
qed

text \<open>
  As the claim is stated, for any second run, it fails: after a first run with status 0, a
  second run as root that finds no space left when it writes the pre-hook script exits
  with status 1 and leaves that file empty.
\<close>

theorem C7_counterexample:
  "wf_fs (fs (sys bare_world))
   \<and> fst (run_script root_env bare_world) = 0
   \<and> os_geteuid nospace_env = Some 0
   \<and> fst (run_script nospace_env (snd (run_script root_env bare_world))) = 1
   \<and> fs (sys (snd (run_script root_env bare_world))) ''/etc/azure/pre_backup.sh''
       = Some (File PRE_BACKUP_CONTENT 448)
   \<and> fs (sys (snd (run_script nospace_env (snd (run_script root_env bare_world)))))
         ''/etc/azure/pre_backup.sh''
       = Some (File [] 448)"
proof -
  have a: "fst (run_script root_env bare_world) = 0"
    and b: "fs (sys (snd (run_script root_env bare_world))) pre_path = Some (File PRE_BACKUP_CONTENT 448)"
    by (simp_all add: run_script_status run_script_fs run_simps root_env_def bare_world_def)
  have c: "fst (run_script nospace_env (snd (run_script root_env bare_world))) = 1"
    by (simp add: run_script_status run_script_def os_flush_stdout_def run_simps nospace_env_def root_env_def bare_world_def)
  have d: "fs (sys (snd (run_script nospace_env (snd (run_script root_env bare_world))))) pre_path
       = Some (File [] 448)"
    by (simp add: run_script_fs run_script_def os_flush_stdout_def run_simps nospace_env_def root_env_def bare_world_def)
  show ?thesis
    using a b c d wf_bare by (simp add: nospace_env_def)
qed

text \<open>
  The amended claim for two runs as root without faults, from a file system holding only the
  root directory.
\<close>

theorem C7_second_run_witness:
  "fst (run_script root_env bare_world) = 0
   \<and> fst (run_script root_env (snd (run_script root_env bare_world))) = 0
   \<and> fs (sys (snd (run_script root_env (snd (run_script root_env bare_world)))))
       = fs (sys (snd (run_script root_env bare_world)))"
proof -
  have h: "fst (run_script root_env bare_world) = 0"
    by (simp add: run_script_status run_simps root_env_def bare_world_def)
  have p: "os_geteuid root_env = None \<or> os_geteuid root_env = Some 0"
    and f: "fault root_env = Map.empty"
    by (simp_all add: root_env_def)
  show ?thesis
    using C7_second_run [OF wf_bare h p f] h by simp
qed



text \<open>
  Claim C9. The run ends with the privilege error (status 1, the two lines of the message,
  nothing else done) exactly when \<^verbatim>\<open>os.geteuid\<close> exists and returns a value other than 0.
  Where \<^verbatim>\<open>os.geteuid\<close> does not exist the run is the run of root: it goes on to the
  directory step without any check.
\<close>

theorem C9_privilege_check:
  "(main e w = (1, prints privilege_error w) \<longleftrightarrow> (\<exists>uid. os_geteuid e = Some uid \<and> uid \<noteq> 0))
   \<and> (os_geteuid e = None \<longrightarrow>
        main e w = main (e\<lparr>os_geteuid := Some 0\<rparr>) w
        \<and> new_calls w (snd (main e w)) \<noteq> [])"
proof (intro conjI iffI impI)
  assume "\<exists>uid. os_geteuid e = Some uid \<and> uid \<noteq> 0"
  then show "main e w = (1, prints privilege_error w)"
    by (auto simp add: main_denied privilege_error_def)
next
  assume m: "main e w = (1, prints privilege_error w)"
  show "\<exists>uid. os_geteuid e = Some uid \<and> uid \<noteq> 0"
  proof (rule ccontr)
    assume "\<not> (\<exists>uid. os_geteuid e = Some uid \<and> uid \<noteq> 0)"
    then have p: "os_geteuid e = None \<or> os_geteuid e = Some 0"
      by (cases "os_geteuid e") auto
    obtain ls where "out (snd (main e w)) = out w @ banner @ ls"
      using main_proceeds_out [OF p] by blast
    then have "banner @ ls = privilege_error"
      using m by simp
    then have "hd (banner @ ls) = hd privilege_error"
      by simp
    then show False
      by (simp add: banner_def privilege_error_def)
  qed
next
  assume n: "os_geteuid e = None"
  show "main e w = main (e\<lparr>os_geteuid := Some 0\<rparr>) w"
    using n by (simp add: main_def Let_def split_def geteuid_irrelevant_steps)
next
  assume n: "os_geteuid e = None"
  then have "os_geteuid e = None \<or> os_geteuid e = Some 0"
    by simp
  then show "new_calls w (snd (main e w)) \<noteq> []"
    by (cases rule: main_run [where w = w]) simp_all
qed

theorem C9_privilege_check_witness:
  "main no_geteuid_env bare_world = main (no_geteuid_env\<lparr>os_geteuid := Some 0\<rparr>) bare_world
   \<and> new_calls bare_world (snd (main no_geteuid_env bare_world)) \<noteq> []"
proof -
  have n: "os_geteuid no_geteuid_env = None"
    by (simp add: no_geteuid_env_def)
  show ?thesis
    by (rule C9_privilege_check [of no_geteuid_env bare_world, THEN conjunct2, THEN mp, OF n])
qed

end
